theory Spec2Isabelle
  imports Complex_Main "HOL-Library.Sublist"
begin

section \<open>Python values shared by the modules\<close>

text \<open>
  The exceptions that the modelled functions raise or let through. \<open>RuntimeError\<close>
  carries its message; \<open>P4Exception\<close> is the exception of the P4 client library.
\<close>

datatype py_error =
    RuntimeError string
  | IndexError
  | TypeError
  | ValueError
  | AssertionError
  | OSError
  | P4Exception string

text \<open>Truth value of an optional string: \<open>None\<close> and the empty string are false.\<close>

fun truthy :: "string option \<Rightarrow> bool" where
  "truthy None = False"
| "truthy (Some s) = (s \<noteq> [])"

section \<open>Conflict checker (p4gf\_g2p\_conflict\_checker.py)\<close>

text \<open>
  \<open>CommitChange\<close> is the named tuple of the source. Either field may be \<open>None\<close>:
  \<open>find_conflict_index\<close> itself builds \<open>CommitChange(None, changes[0])\<close>.
\<close>

record CommitChange =
  git_commit_sha1 :: "string option"
  p4_changelist_number :: "string option"

record G2PConflictChecker =
  good :: "CommitChange list"
  first_conflict_index :: "nat option"
  last_good_change_number :: "string option"

text \<open>The checker right after \<open>__init__\<close> for a head that maps to no commit object.\<close>

definition checker_init :: G2PConflictChecker where
  "checker_init = \<lparr>good = [], first_conflict_index = None, last_good_change_number = None\<rparr>"

text \<open>
  \<open>record_commit\<close>: raises only when both arguments are false, otherwise appends.
\<close>

definition record_commit ::
  "G2PConflictChecker \<Rightarrow> string option \<Rightarrow> string option \<Rightarrow> py_error + G2PConflictChecker" where
  "record_commit self commit_sha1 changelist_number =
     (if \<not> truthy commit_sha1 \<and> \<not> truthy changelist_number
      then Inl (RuntimeError
        ''Cannot record a partial git commit + p4 changelist, both must be non-None'')
      else Inr (self\<lparr>good := good self @
        [\<lparr>git_commit_sha1 = commit_sha1, p4_changelist_number = changelist_number\<rparr>]\<rparr>))"

text \<open>
  The first loop of \<open>find_conflict_index\<close>:
  \<^verbatim>\<open>while len(good) and not (good[0] in changes): good.pop(0)\<close>.
\<close>

fun skip_old_good :: "string option list \<Rightarrow> string list \<Rightarrow> string option list" where
  "skip_old_good [] changes = []"
| "skip_old_good (g # gs) changes =
     (if g \<in> Some ` set changes then g # gs else skip_old_good gs changes)"

text \<open>
  The second loop pops both lists in lock step. It either returns from inside the loop
  (\<open>Inl good_index\<close>) or falls off the end with what is left of both lists.
\<close>

fun lock_step ::
  "string option list \<Rightarrow> string list \<Rightarrow> nat \<Rightarrow> nat + (string option list \<times> string list \<times> nat)" where
  "lock_step (g # gs) (c # cs) good_index =
     (if g = Some c then lock_step gs cs (good_index + 1) else Inl good_index)"
| "lock_step gs cs good_index = Inr (gs, cs, good_index)"

text \<open>
  \<open>find_conflict_index\<close>. The argument is the \<open>change\<close> field of each row of
  \<open>p4 changes\<close>, newest first as the server reports them. The placeholder
  \<open>CommitChange(None, changes[0])\<close> is appended to the local list \<open>good\<close> of
  changelist numbers, which is dropped on return: \<open>self.good\<close> is not touched.
  The result is the returned index and the checker, whose
  \<open>last_good_change_number\<close> is updated on the no-conflict path.
\<close>

definition find_conflict_index ::
  "G2PConflictChecker \<Rightarrow> string list \<Rightarrow> nat option \<times> G2PConflictChecker" where
  "find_conflict_index self changelist_list0 =
     (let changes = rev changelist_list0;
          good0 = skip_old_good (map p4_changelist_number (good self)) changes
      in case lock_step good0 changes 0 of
           Inl good_index \<Rightarrow> (Some good_index, self)
         | Inr (good1, changes1, good_index) \<Rightarrow>
             if good1 \<noteq> [] then (Some good_index, self)
             else if changes1 \<noteq> [] then (Some good_index, self)
             else if good self \<noteq> []
               then (None, self\<lparr>last_good_change_number :=
                       p4_changelist_number (last (good self))\<rparr>)
               else (None, self))"

text \<open>\<open>p4gf_path.slash_dot_dot_dot\<close>.\<close>

definition slash_dot_dot_dot :: "string \<Rightarrow> string" where
  "slash_dot_dot_dot path =
     (let s = (if prefix ''//'' path then path else ''//'' @ path)
      in if suffix ''/...'' path then s else s @ ''/...'')"

text \<open>The revision range that \<open>check\<close> hands to \<open>p4 changes -m5 -ssubmitted\<close>.\<close>

definition check_path_at :: "string \<Rightarrow> G2PConflictChecker \<Rightarrow> string" where
  "check_path_at p4client self =
     (let path = slash_dot_dot_dot p4client in
      case last_good_change_number self of
        Some change \<Rightarrow>
          (if change \<noteq> [] then path @ ''@'' @ change @ '',2030/12/31''
           else path @ ''@0,2030/12/31'')
      | None \<Rightarrow> path @ ''@0,2030/12/31'')"

text \<open>
  \<open>check\<close>. The server is the function \<open>p4_changes\<close> from the queried range to the
  rows it answers (or the exception the client library raises). The index found is
  stored in \<open>first_conflict_index\<close> before \<open>self.good\<close> is indexed with it, so an
  \<open>IndexError\<close> leaves it set.
\<close>

definition check ::
  "string \<Rightarrow> (string \<Rightarrow> py_error + string list) \<Rightarrow> G2PConflictChecker
     \<Rightarrow> (py_error + string option) \<times> G2PConflictChecker" where
  "check p4client p4_changes self =
     (case p4_changes (check_path_at p4client self) of
        Inl e \<Rightarrow> (Inl e, self)
      | Inr changelist_list \<Rightarrow>
          (let (idx, self1) = find_conflict_index self changelist_list;
               self2 = self1\<lparr>first_conflict_index := idx\<rparr>
           in case idx of
                None \<Rightarrow> (Inr None, self2)
              | Some i \<Rightarrow>
                  if i < length (good self2)
                  then (Inr (p4_changelist_number (good self2 ! i)), self2)
                  else (Inl IndexError, self2)))"

definition has_conflict :: "G2PConflictChecker \<Rightarrow> bool" where
  "has_conflict self = (first_conflict_index self \<noteq> None)"

section \<open>Python string helpers\<close>

definition is_digit :: "char \<Rightarrow> bool" where
  "is_digit c = (c \<in> set ''0123456789'')"

definition is_space :: "char \<Rightarrow> bool" where
  "is_space c = (c \<in> {CHR '' '', CHR 0x09, CHR 0x0A, CHR 0x0B, CHR 0x0C, CHR 0x0D})"

definition digit_val :: "char \<Rightarrow> nat" where
  "digit_val c = of_char c - 48"

definition digits_val :: "string \<Rightarrow> nat" where
  "digits_val ds = foldl (\<lambda>a c. 10 * a + digit_val c) 0 ds"

definition py_strip :: "string \<Rightarrow> string" where
  "py_strip s = rev (dropWhile is_space (rev (dropWhile is_space s)))"

text \<open>
  \<open>int(s)\<close> on a string: surrounding white space is dropped, one sign is allowed,
  and what is left must be decimal digits, at least one; anything else raises
  \<open>ValueError\<close> (\<open>None\<close> here).
\<close>

definition py_int :: "string \<Rightarrow> int option" where
  "py_int s =
     (let t = py_strip s;
          neg = (t \<noteq> [] \<and> hd t = CHR ''-'');
          body = (if t \<noteq> [] \<and> (hd t = CHR ''-'' \<or> hd t = CHR ''+'') then tl t else t)
      in if body \<noteq> [] \<and> list_all is_digit body
         then Some (if neg then - int (digits_val body) else int (digits_val body))
         else None)"

text \<open>\<open>str(n)\<close> of an integer.\<close>

definition digit_char :: "nat \<Rightarrow> char" where
  "digit_char d = ''0123456789'' ! d"

function str_nat :: "nat \<Rightarrow> string" where
  "str_nat n = (if n < 10 then [digit_char n] else str_nat (n div 10) @ [digit_char (n mod 10)])"
  by pat_completeness auto
termination
  by (relation "measure id") auto

declare str_nat.simps [simp del]

definition py_str :: "int \<Rightarrow> string" where
  "py_str i = (if i < 0 then CHR ''-'' # str_nat (nat (- i)) else str_nat (nat i))"

text \<open>
  \<open>s.split(sep, maxsplit)\<close> for a one-character separator: at most \<open>maxsplit\<close>
  cuts, the rest of the string is the last part.
\<close>

fun py_split_max :: "char \<Rightarrow> nat \<Rightarrow> string \<Rightarrow> string list" where
  "py_split_max sep 0 s = [s]"
| "py_split_max sep (Suc n) s =
     (if sep \<in> set s
      then takeWhile (\<lambda>c. c \<noteq> sep) s # py_split_max sep n (tl (dropWhile (\<lambda>c. c \<noteq> sep) s))
      else [s])"

section \<open>Counter lock (p4gf\_lock.py)\<close>

definition HEARTBEAT_TIMEOUT_SECS :: int where
  "HEARTBEAT_TIMEOUT_SECS = 60"

definition HEART_RATE :: int where
  "HEART_RATE = 1"

definition RETRY_PERIOD :: real where
  "RETRY_PERIOD = 100 * (1 / 1000)"

text \<open>
  \<open>check_holder_alive\<close>, with the reading \<open>now\<close> of
  \<open>calendar.timegm(time.gmtime())\<close> as an argument. Only \<open>ValueError\<close> is caught:
  a record with fewer than three tab-separated fields raises \<open>IndexError\<close>.
\<close>

definition check_holder_alive :: "string \<Rightarrow> int \<Rightarrow> py_error + bool" where
  "check_holder_alive holder now =
     (let parts = py_split_max (CHR 0x09) 3 holder in
      if length parts \<le> 2 then Inl IndexError
      else case py_int (parts ! 2) of
             None \<Rightarrow> Inr True
           | Some then0 \<Rightarrow> Inr (now < then0 \<or> now - then0 < HEARTBEAT_TIMEOUT_SECS))"

text \<open>
  The fields of a \<open>CounterLock\<close> object. \<open>event\<close> and \<open>log_timer\<close> only record
  whether the pacemaker process and the log timer have been started: what they do runs
  beside the acquiring process and is outside this model.
\<close>

record CounterLock =
  has_lock :: bool
  acquisition_time :: "real option"
  heartbeat_time :: "int option"
  heartbeat_content_last :: "string option"
  heartbeat_only :: bool
  auto_beat :: bool
  event :: bool
  log_timer :: bool

text \<open>\<open>CounterLock.__init__\<close>.\<close>

definition counter_lock_init :: "bool \<Rightarrow> CounterLock" where
  "counter_lock_init hb_only =
     \<lparr>has_lock = False, acquisition_time = None, heartbeat_time = None,
      heartbeat_content_last = None, heartbeat_only = hb_only, auto_beat = False,
      event = False, log_timer = False\<rparr>"

text \<open>
  What the acquiring process sees of the server and of time. The server keeps the two
  counters of one lock: \<open>lock_value\<close> (0 when the counter is unset or deleted) and
  \<open>heartbeat_value\<close> (\<open>None\<close> when unset, which \<open>p4 counter\<close> reports as \<open>0\<close>).
  Between two commands of this process no other process touches them. Every reading of
  the system clock takes the next value \<open>clock (ticks)\<close>; \<open>trace\<close> lists what the
  process did, oldest first.
\<close>

datatype lock_event =
    Increment
  | GetHeartbeat
  | SetHeartbeat string
  | ClearHeartbeat
  | DeleteLock
  | Sleep real

record lock_world =
  lk :: CounterLock
  lock_value :: nat
  heartbeat_value :: "string option"
  ticks :: nat
  trace :: "lock_event list"

text \<open>Who is acquiring: host name, process id and command line, for the heartbeat.\<close>

record lock_ident =
  hostname :: string
  pid :: string
  argv :: string

definition read_clock :: "(nat \<Rightarrow> real) \<Rightarrow> lock_world \<Rightarrow> real \<times> lock_world" where
  "read_clock clock w = (clock (ticks w), w\<lparr>ticks := ticks w + 1\<rparr>)"

definition log_event :: "lock_event \<Rightarrow> lock_world \<Rightarrow> lock_world" where
  "log_event e w = w\<lparr>trace := trace w @ [e]\<rparr>"

text \<open>\<open>_acquire_attempt\<close>: \<open>p4 counter -u -i\<close>; the lock is ours when the result is 1.\<close>

definition acquire_attempt :: "lock_world \<Rightarrow> bool \<times> lock_world" where
  "acquire_attempt w =
     (let w1 = log_event Increment (w\<lparr>lock_value := lock_value w + 1\<rparr>)
      in (lock_value w1 = 1, w1))"

text \<open>\<open>heartbeat_content\<close>: returns the current and the previous content.\<close>

definition heartbeat_content ::
  "(nat \<Rightarrow> real) \<Rightarrow> lock_ident \<Rightarrow> lock_world \<Rightarrow> (string option \<times> string option) \<times> lock_world" where
  "heartbeat_content clock ident w =
     (let (t, w1) = read_clock clock w;
          now = \<lfloor>t\<rfloor>;
          fresh = (case heartbeat_time (lk w1) of
                     None \<Rightarrow> False
                   | Some ht \<Rightarrow> ht \<noteq> 0 \<and> now - ht < HEART_RATE)
      in if fresh
         then ((heartbeat_content_last (lk w1), heartbeat_content_last (lk w1)), w1)
         else
           (let val = hostname ident @ [CHR 0x09] @ pid ident @ [CHR 0x09] @ py_str now
                        @ [CHR 0x09] @ argv ident;
                last0 = heartbeat_content_last (lk w1)
            in ((Some val, last0),
                w1\<lparr>lk := (lk w1)\<lparr>heartbeat_time := Some now,
                                   heartbeat_content_last := Some val\<rparr>\<rparr>)))"

definition update_heartbeat :: "(nat \<Rightarrow> real) \<Rightarrow> lock_ident \<Rightarrow> lock_world \<Rightarrow> lock_world" where
  "update_heartbeat clock ident w =
     (if \<not> (has_lock (lk w) \<or> heartbeat_only (lk w)) then w
      else
        (let ((current, last0), w1) = heartbeat_content clock ident w
         in if current \<noteq> last0
            then (case current of
                    Some c \<Rightarrow> log_event (SetHeartbeat c) (w1\<lparr>heartbeat_value := Some c\<rparr>)
                  | None \<Rightarrow> w1)
            else w1))"

text \<open>\<open>get_heartbeat\<close>: an unset counter reads as \<open>0\<close>, which counts as no holder.\<close>

definition get_heartbeat :: "lock_world \<Rightarrow> string option \<times> lock_world" where
  "get_heartbeat w =
     (let v = (case heartbeat_value w of None \<Rightarrow> ''0'' | Some x \<Rightarrow> x)
      in (if v = [] \<or> v = ''0'' then None else Some v, log_event GetHeartbeat w))"

definition clear_heartbeat :: "lock_world \<Rightarrow> lock_world" where
  "clear_heartbeat w = log_event ClearHeartbeat (w\<lparr>heartbeat_value := None\<rparr>)"

text \<open>\<open>_held_duration_seconds\<close>: reads the clock only when an acquisition time is set.\<close>

definition held_duration_seconds :: "(nat \<Rightarrow> real) \<Rightarrow> lock_world \<Rightarrow> real \<times> lock_world" where
  "held_duration_seconds clock w =
     (case acquisition_time (lk w) of
        None \<Rightarrow> (0, w)
      | Some a \<Rightarrow> if a = 0 then (0, w)
                  else (let (t, w1) = read_clock clock w in (t - a, w1)))"

text \<open>
  \<open>release\<close>. The log timer lasts \<open>5 * 60\<close> seconds (no test variable is set);
  \<open>_report_long_lock\<close> calls \<open>heartbeat_content\<close> for its message.
\<close>

definition release :: "(nat \<Rightarrow> real) \<Rightarrow> lock_ident \<Rightarrow> lock_world \<Rightarrow> bool \<times> lock_world" where
  "release clock ident w =
     (let w1 = (if has_lock (lk w) \<or> heartbeat_only (lk w)
                then w\<lparr>lk := (lk w)\<lparr>event := False\<rparr>\<rparr> else w)
      in if \<not> has_lock (lk w1) then (False, w1)
         else
           (let w2 = w1\<lparr>lk := (lk w1)\<lparr>log_timer := False\<rparr>\<rparr>;
                (held, w3) = held_duration_seconds clock w2;
                w4 = (if 5 * 60 \<le> held then snd (heartbeat_content clock ident w3) else w3);
                w5 = clear_heartbeat w4;
                w6 = log_event DeleteLock (w5\<lparr>lock_value := 0\<rparr>)
            in (True, w6\<lparr>lk := (lk w6)\<lparr>has_lock := False\<rparr>\<rparr>)))"

text \<open>
  One turn of the \<open>while True\<close> loop of \<open>acquire\<close>; \<open>start\<close> is the clock reading
  taken before the loop. A turn ends the call (\<open>Acquired\<close>, or \<open>Raised\<close> on an
  exception), loops around at once after releasing an abandoned lock (\<open>Again\<close>), or
  sleeps first (\<open>Slept\<close>).
\<close>

datatype turn = Acquired | Raised py_error | Again | Slept

definition timeout_message :: "string option \<Rightarrow> string \<Rightarrow> string" where
  "timeout_message holder counter_name =
     ''Unable to acquire lock: '' @ counter_name
     @ (case holder of None \<Rightarrow> [] | Some h \<Rightarrow> [CHR 0x0A] @ ''Lock holder: '' @ h)
     @ [CHR 0x0A] @ ''Please try again after ''
     @ py_str \<lceil>real_of_int HEARTBEAT_TIMEOUT_SECS / 60\<rceil> @ '' minute(s).''"

definition acquire_turn ::
  "(nat \<Rightarrow> real) \<Rightarrow> lock_ident \<Rightarrow> string \<Rightarrow> real option \<Rightarrow> real \<Rightarrow> lock_world
     \<Rightarrow> turn \<times> lock_world" where
  "acquire_turn clock ident counter_name timeout_secs start w =
     (let (acquired, w1) = acquire_attempt w;
          w2 = w1\<lparr>lk := (lk w1)\<lparr>has_lock := acquired\<rparr>\<rparr>
      in if acquired
         then
           (let (t, w3) = read_clock clock w2;
                w4 = update_heartbeat clock ident
                       (w3\<lparr>lk := (lk w3)\<lparr>acquisition_time := Some t\<rparr>\<rparr>);
                w5 = (if auto_beat (lk w4) \<and> \<not> event (lk w4)
                      then w4\<lparr>lk := (lk w4)\<lparr>event := True\<rparr>\<rparr> else w4)
            in (Acquired, w5\<lparr>lk := (lk w5)\<lparr>log_timer := True\<rparr>\<rparr>))
         else
           (let (holder, w3) = get_heartbeat w2 in
            case (case holder of
                    None \<Rightarrow> (Inr True, w3)
                  | Some h \<Rightarrow> (let (t, w4) = read_clock clock w3
                               in (check_holder_alive h \<lfloor>t\<rfloor>, w4))) of
              (Inl e, w4) \<Rightarrow> (Raised e, w4)
            | (Inr False, w4) \<Rightarrow>
                (Again, snd (release clock ident (w4\<lparr>lk := (lk w4)\<lparr>has_lock := True\<rparr>\<rparr>)))
            | (Inr True, w4) \<Rightarrow>
                (let (t, w5) = read_clock clock w4;
                     elapsed = t - start
                 in if (case timeout_secs of None \<Rightarrow> False
                        | Some ts \<Rightarrow> ts \<noteq> 0 \<and> ts \<le> elapsed)
                    then (let (holder2, w6) = get_heartbeat w5
                          in (Raised (RuntimeError (timeout_message holder2 counter_name)), w6))
                    else (Slept, log_event (Sleep RETRY_PERIOD) w5))))"

text \<open>
  The loop, with fuel: \<open>None\<close> when the fuel runs out before the call ends, which is
  how a call that waits for ever shows.
\<close>

fun acquire_loop ::
  "nat \<Rightarrow> (nat \<Rightarrow> real) \<Rightarrow> lock_ident \<Rightarrow> string \<Rightarrow> real option \<Rightarrow> real \<Rightarrow> lock_world
     \<Rightarrow> (py_error + unit) option \<times> lock_world" where
  "acquire_loop 0 clock ident counter_name timeout_secs start w = (None, w)"
| "acquire_loop (Suc fuel) clock ident counter_name timeout_secs start w =
     (case acquire_turn clock ident counter_name timeout_secs start w of
        (Acquired, w1) \<Rightarrow> (Some (Inr ()), w1)
      | (Raised e, w1) \<Rightarrow> (Some (Inl e), w1)
      | (Again, w1) \<Rightarrow> acquire_loop fuel clock ident counter_name timeout_secs start w1
      | (Slept, w1) \<Rightarrow> acquire_loop fuel clock ident counter_name timeout_secs start w1)"

text \<open>\<open>acquire\<close>: nothing to do for a heartbeat-only lock.\<close>

definition acquire ::
  "nat \<Rightarrow> (nat \<Rightarrow> real) \<Rightarrow> lock_ident \<Rightarrow> string \<Rightarrow> real option \<Rightarrow> lock_world
     \<Rightarrow> (py_error + unit) option \<times> lock_world" where
  "acquire fuel clock ident counter_name timeout_secs w =
     (if heartbeat_only (lk w) then (Some (Inr ()), w)
      else (let (start, w1) = read_clock clock w
            in acquire_loop fuel clock ident counter_name timeout_secs start w1))"

text \<open>
  The heartbeat records of the two lock claims, in the words of the specification. A
  record is malformed or future-dated at \<open>now\<close> when it has a third tab-separated
  field that is not an integer, or is one that lies after \<open>now\<close>; it is stale when
  that field is an integer at least \<open>HEARTBEAT_TIMEOUT_SECS\<close> before \<open>now\<close>.
\<close>

definition malformed_or_future :: "string \<Rightarrow> int \<Rightarrow> bool" where
  "malformed_or_future holder now =
     (let parts = py_split_max (CHR 0x09) 3 holder
      in 2 < length parts \<and> (case py_int (parts ! 2) of None \<Rightarrow> True | Some then0 \<Rightarrow> now < then0))"

definition stale :: "string \<Rightarrow> int \<Rightarrow> bool" where
  "stale holder now =
     (let parts = py_split_max (CHR 0x09) 3 holder
      in 2 < length parts \<and>
         (case py_int (parts ! 2) of None \<Rightarrow> False
          | Some then0 \<Rightarrow> HEARTBEAT_TIMEOUT_SECS \<le> now - then0))"

text \<open>
  \<open>timed_out\<close> is the test \<open>timeout_secs and timeout_secs <= elapsed\<close> of
  \<open>acquire\<close>; \<open>waiting_events\<close> are the events of a turn that neither acquires nor
  releases.
\<close>

definition is_sleep :: "lock_event \<Rightarrow> bool" where
  "is_sleep e = (case e of Sleep d \<Rightarrow> True | _ \<Rightarrow> False)"

definition timed_out :: "real option \<Rightarrow> real \<Rightarrow> bool" where
  "timed_out timeout_secs elapsed =
     (case timeout_secs of None \<Rightarrow> False | Some ts \<Rightarrow> ts \<noteq> 0 \<and> ts \<le> elapsed)"

definition waiting_events :: "lock_event set" where
  "waiting_events = {Increment, GetHeartbeat, Sleep RETRY_PERIOD}"

section \<open>Object types and the revision range (p4gf\_object\_type.py, p4gf\_copy\_to\_git.py)\<close>

text \<open>
  \<open>ObjectType\<close>: a commit carries a list of (changelist, view name) pairs, a tree or
  blob carries \<open>None\<close>.
\<close>

record ObjectType =
  ot_sha1 :: string
  ot_type :: string
  ot_p4changelists :: "(string \<times> string) list option"

text \<open>
  \<open>view_name_to_changelist\<close>: the comprehension iterates over \<open>p4changelists\<close>,
  which raises \<open>TypeError\<close> when it is \<open>None\<close>.
\<close>

definition view_name_to_changelist :: "ObjectType \<Rightarrow> string \<Rightarrow> py_error + string option" where
  "view_name_to_changelist self view_name =
     (case ot_p4changelists self of
        None \<Rightarrow> Inl TypeError
      | Some pairs \<Rightarrow>
          (case filter (\<lambda>(cl, vn). vn = view_name) pairs of
             [] \<Rightarrow> Inr None
           | (cl, vn) # rest \<Rightarrow> Inr (Some cl)))"

definition applies_to_view :: "ObjectType \<Rightarrow> string \<Rightarrow> py_error + bool" where
  "applies_to_view self view_name =
     (if ot_type self \<noteq> ''commit'' then Inr True
      else case view_name_to_changelist self view_name of
             Inl e \<Rightarrow> Inl e
           | Inr m \<Rightarrow> Inr (m \<noteq> None))"

text \<open>The list comprehension \<open>[ot for ot in l if ot.applies_to_view(view_name)]\<close>.\<close>

fun filter_applies :: "ObjectType list \<Rightarrow> string \<Rightarrow> py_error + ObjectType list" where
  "filter_applies [] view_name = Inr []"
| "filter_applies (ot # ots) view_name =
     (case applies_to_view ot view_name of
        Inl e \<Rightarrow> Inl e
      | Inr b \<Rightarrow>
          (case filter_applies ots view_name of
             Inl e \<Rightarrow> Inl e
           | Inr r \<Rightarrow> Inr (if b then ot # r else r)))"

text \<open>
  \<open>sha1_to_object_type\<close>. The server is \<open>p4_objects\<close>: for a sha1, the object
  types that \<open>_sha1_to_object_type_list_p4\<close> builds from the answer of \<open>p4 files\<close>,
  or the exception raised on the way. A sha1 of \<open>None\<close> cannot be sliced
  (\<open>TypeError\<close>). The bare \<open>except\<close> swallows every exception unless
  \<open>raise_on_error\<close> is set.
\<close>

definition sha1_to_object_type ::
  "(string \<Rightarrow> py_error + ObjectType list) \<Rightarrow> string option \<Rightarrow> string \<Rightarrow> bool
     \<Rightarrow> py_error + ObjectType option" where
  "sha1_to_object_type p4_objects sha1 view_name raise_on_error =
     (let r =
        (case sha1 of
           None \<Rightarrow> Inl TypeError
         | Some s \<Rightarrow>
             (case p4_objects s of
                Inl e \<Rightarrow> Inl e
              | Inr object_type_list \<Rightarrow>
                  (case filter_applies object_type_list view_name of
                     Inl e \<Rightarrow> Inl e
                   | Inr [] \<Rightarrow> Inl (RuntimeError
                       (''sha1 not matched: '' @ s @ '' for view '' @ view_name))
                   | Inr [ot] \<Rightarrow> Inr (Some ot)
                   | Inr (ot # ot2 # others) \<Rightarrow> Inl (RuntimeError
                       (''sha1 not unique: '' @ s @ '' for view '' @ view_name)))))
      in case r of
           Inl e \<Rightarrow> if raise_on_error then Inl e else Inr None
         | Inr v \<Rightarrow> Inr v)"

text \<open>\<open>GitMirror.get_change_for_commit\<close>, the commit-to-changelist lookup.\<close>

definition get_change_for_commit ::
  "(string \<Rightarrow> py_error + ObjectType list) \<Rightarrow> string option \<Rightarrow> string
     \<Rightarrow> py_error + string option" where
  "get_change_for_commit p4_objects commit view_name =
     (case sha1_to_object_type p4_objects commit view_name False of
        Inl e \<Rightarrow> Inl e
      | Inr None \<Rightarrow> Inr None
      | Inr (Some object_type) \<Rightarrow> view_name_to_changelist object_type view_name)"

record RevRange =
  begin_rev_spec :: "string option"
  end_rev_spec :: "string option"
  new_repo :: bool
  graft_change_num :: "int option"
  last_commit :: "string option"

text \<open>\<open>RevRange.__init__\<close>.\<close>

definition rev_range_init :: RevRange where
  "rev_range_init = \<lparr>begin_rev_spec = None, end_rev_spec = None, new_repo = False,
     graft_change_num = None, last_commit = None\<rparr>"

definition invalid_start_message :: "string \<Rightarrow> string" where
  "invalid_start_message start_at =
     ''Invalid startAt='' @ start_at
     @ '': no commit sha1 with a corresponding Perforce changelist number.''"

text \<open>
  \<open>RevRange._existing_repo_after_commit\<close>. \<open>expand_sha1\<close> asks git for the full
  sha1 and is a parameter, \<open>None\<close> when git knows no such object.
\<close>

definition existing_repo_after_commit ::
  "(string \<Rightarrow> py_error + ObjectType list) \<Rightarrow> (string \<Rightarrow> string option) \<Rightarrow> string
     \<Rightarrow> string \<Rightarrow> string \<Rightarrow> py_error + RevRange" where
  "existing_repo_after_commit p4_objects expand_sha1 view_name start_at stop_at =
     (let last_commit0 = expand_sha1 start_at in
      case get_change_for_commit p4_objects last_commit0 view_name of
        Inl e \<Rightarrow> Inl e
      | Inr last_changelist_number \<Rightarrow>
          if \<not> truthy last_changelist_number
          then Inl (RuntimeError (invalid_start_message start_at))
          else (case py_int (the last_changelist_number) of
                  None \<Rightarrow> Inl ValueError
                | Some n \<Rightarrow>
                    Inr (rev_range_init\<lparr>begin_rev_spec := Some (''@'' @ py_str (1 + n)),
                                         end_rev_spec := Some stop_at,
                                         new_repo := False,
                                         graft_change_num := None,
                                         last_commit := last_commit0\<rparr>)))"

text \<open>
  \<open>RevRange._new_repo_from_perforce_range\<close>; \<open>p4_changes2\<close> answers
  \<open>p4 changes -m2 path@start\<close> with the \<open>change\<close> field of each row.
\<close>

definition new_repo_from_perforce_range ::
  "(string \<Rightarrow> py_error + string list) \<Rightarrow> string \<Rightarrow> string \<Rightarrow> string \<Rightarrow> py_error + RevRange" where
  "new_repo_from_perforce_range p4_changes2 client_view_path start_at stop_at =
     (let result = rev_range_init\<lparr>begin_rev_spec := Some start_at, end_rev_spec := Some stop_at,
                                  new_repo := True\<rparr>
      in if start_at \<noteq> ''@1''
         then (case p4_changes2 (client_view_path @ start_at) of
                 Inl e \<Rightarrow> Inl e
               | Inr changes_result \<Rightarrow>
                   if 2 \<le> length changes_result
                   then (case py_int (changes_result ! 1) of
                           None \<Rightarrow> Inl ValueError
                         | Some g \<Rightarrow> Inr (result\<lparr>graft_change_num := Some g\<rparr>))
                   else Inr result)
         else Inr result)"

text \<open>\<open>RevRange.from_start_stop\<close>.\<close>

definition from_start_stop ::
  "(string \<Rightarrow> py_error + ObjectType list) \<Rightarrow> (string \<Rightarrow> string option)
     \<Rightarrow> (string \<Rightarrow> py_error + string list) \<Rightarrow> string \<Rightarrow> string \<Rightarrow> string \<Rightarrow> string
     \<Rightarrow> py_error + RevRange" where
  "from_start_stop p4_objects expand_sha1 p4_changes2 client_view_path view_name start_at stop_at =
     (if prefix ''@'' start_at
      then new_repo_from_perforce_range p4_changes2 client_view_path start_at stop_at
      else existing_repo_after_commit p4_objects expand_sha1 view_name start_at stop_at)"

section \<open>Regular expressions of the script builder\<close>

text \<open>
  \<open>s.find(sub)\<close>: the first index at which \<open>sub\<close> occurs, \<open>None\<close> for \<open>-1\<close>.
\<close>

fun str_find :: "string \<Rightarrow> string \<Rightarrow> nat option" where
  "str_find sub [] = (if sub = [] then Some 0 else None)"
| "str_find sub (c # s) =
     (if prefix sub (c # s) then Some 0 else map_option Suc (str_find sub s))"

text \<open>
  The patterns used are sequences of literals, \<open>.+\<close> (one or more characters other
  than a line feed) and \<open>\d+\<close> (one or more decimal digits), matched the way the
  backtracking matcher of \<open>re\<close> does: a greedy item first takes as much as it can and
  gives back one character at a time until the rest of the pattern matches. A match is
  the list of the pieces taken by the items, in order.
\<close>

datatype rx_item = Lit string | Dots | Digits

fun first_len :: "(string \<Rightarrow> string list option) \<Rightarrow> string \<Rightarrow> nat \<Rightarrow> string list option" where
  "first_len k s 0 = None"
| "first_len k s (Suc n) =
     (case k (drop (Suc n) s) of
        Some ps \<Rightarrow> Some (take (Suc n) s # ps)
      | None \<Rightarrow> first_len k s n)"

primrec rmatch :: "rx_item list \<Rightarrow> string \<Rightarrow> string list option" where
  "rmatch [] s = Some []"
| "rmatch (it # its) s =
     (case it of
        Lit l \<Rightarrow> if prefix l s then map_option (Cons l) (rmatch its (drop (length l) s)) else None
      | Dots \<Rightarrow> first_len (rmatch its) s (length (takeWhile (\<lambda>c. c \<noteq> CHR 0x0A) s))
      | Digits \<Rightarrow> first_len (rmatch its) s (length (takeWhile is_digit s)))"

text \<open>\<open>regex.search\<close>: the match at the leftmost position that has one.\<close>

fun rsearch :: "rx_item list \<Rightarrow> string \<Rightarrow> string list option" where
  "rsearch its [] = rmatch its []"
| "rsearch its (c # s) =
     (case rmatch its (c # s) of Some ps \<Rightarrow> Some ps | None \<Rightarrow> rsearch its s)"

section \<open>Changelist descriptions (p4gf\_copy\_to\_p4.change\_description)\<close>

definition P4GF_IMPORT_HEADER :: string where
  "P4GF_IMPORT_HEADER = ''Imported from Git''"

text \<open>The author or committer of a commit, as the fast-export parser stores it.\<close>

record ident =
  id_user :: string
  id_email :: string
  id_date :: string
  id_timezone :: string

text \<open>One file change of a commit: \<open>M\<close>, \<open>D\<close>, \<open>R\<close> or \<open>C\<close>.\<close>

record blob =
  b_action :: string
  b_mode :: string
  b_path :: string
  b_topath :: string

text \<open>
  A commit record of the fast-export parser. \<open>c_merge\<close> is \<open>None\<close> when the
  dictionary has no \<open>merge\<close> key.
\<close>

record commit =
  c_mark :: string
  c_sha1 :: string
  c_data :: string
  c_author :: ident
  c_committer :: ident
  c_merge :: "string option"
  c_files :: "blob list"

definition join_lines :: "string list \<Rightarrow> string" where
  "join_lines parts = (case parts of [] \<Rightarrow> [] | p # ps \<Rightarrow> p @ concat (map (\<lambda>q. CHR 0x0A # q) ps))"

definition ident_line :: "string \<Rightarrow> ident \<Rightarrow> string" where
  "ident_line label datum =
     '' '' @ label @ '': '' @ id_user datum @ '' '' @ id_email datum @ '' '' @ id_date datum
     @ '' '' @ id_timezone datum"

definition change_description :: "commit \<Rightarrow> string \<Rightarrow> string \<Rightarrow> string" where
  "change_description commit pusher author =
     join_lines
       ([c_data commit, P4GF_IMPORT_HEADER,
         ident_line ''Author'' (c_author commit),
         ident_line ''Committer'' (c_committer commit)]
        @ (if pusher \<noteq> author then ['' Pusher: '' @ pusher] else [])
        @ ['' sha1: '' @ c_sha1 commit])"

section \<open>Script builder (p4gf\_fastimport.py, p4gf\_p4file.py)\<close>

record P4File =
  pf_depot_path :: "string option"
  pf_client_path :: "string option"
  pf_action :: "string option"
  pf_revision :: "string option"
  pf_sha1 :: string
  pf_type :: string

record P4Changelist =
  cl_change :: string
  cl_description :: string
  cl_user :: string
  cl_time :: string
  cl_files :: "P4File list"

definition old_filetypes :: "(string \<times> string) list" where
  "old_filetypes =
     [(''ctempobj'', ''binary+Sw''), (''ctext'', ''text+C''), (''cxtext'', ''text+Cx''),
      (''ktext'', ''text+k''), (''kxtext'', ''text+kx''), (''ltext'', ''text+F''),
      (''tempobj'', ''binary+FSw''), (''ubinary'', ''binary+F''),
      (''uresource'', ''resource+F''), (''uxbinary'', ''binary+Fx''),
      (''xbinary'', ''binary+x''), (''xltext'', ''text+Fx''), (''xtempobj'', ''binary+Swx''),
      (''xtext'', ''text+x''), (''xunicode'', ''unicode+x''), (''xutf16'', ''utf16+x'')]"

definition update_type_string :: "string \<Rightarrow> string" where
  "update_type_string old_type =
     (case map_of old_filetypes old_type of Some t \<Rightarrow> t | None \<Rightarrow> old_type)"

text \<open>\<open>s.split(sep)\<close> for a one-character separator.\<close>

fun py_split :: "char \<Rightarrow> string \<Rightarrow> string list" where
  "py_split sep [] = [[]]"
| "py_split sep (c # s) =
     (if c = sep then [] # py_split sep s
      else (case py_split sep s of [] \<Rightarrow> [[c]] | p # ps \<Rightarrow> (c # p) # ps))"

text \<open>\<open>has_type_modifier\<close> looks at the part after the first \<open>+\<close> only.\<close>

definition has_type_modifier :: "string \<Rightarrow> char \<Rightarrow> bool" where
  "has_type_modifier typestring modifier =
     (let parts = py_split (CHR ''+'') (update_type_string typestring)
      in if length parts < 2 then False else modifier \<in> set (parts ! 1))"

definition is_delete :: "P4File \<Rightarrow> bool" where
  "is_delete f = (pf_action f = Some ''delete'' \<or> pf_action f = Some ''move/delete'')"

definition is_x_type :: "P4File \<Rightarrow> bool" where
  "is_x_type f = has_type_modifier (pf_type f) (CHR ''x'')"

definition is_symlink :: "P4File \<Rightarrow> bool" where
  "is_symlink f = prefix ''symlink'' (pf_type f)"

text \<open>\<open>s[i:]\<close> for any integer \<open>i\<close>.\<close>

definition py_drop :: "int \<Rightarrow> string \<Rightarrow> string" where
  "py_drop i s = (if 0 \<le> i then drop (nat i) s else drop (length s - nat (- i)) s)"

text \<open>
  \<open>__relative_path\<close>: \<open>len\<close> of a missing client path raises \<open>TypeError\<close>, the
  assertion fails when the path is not longer than the project root.
\<close>

definition relative_path :: "int \<Rightarrow> P4File \<Rightarrow> py_error + string" where
  "relative_path project_root_path_length p4file =
     (case pf_client_path p4file of
        None \<Rightarrow> Inl TypeError
      | Some cp \<Rightarrow>
          if int (length cp) > project_root_path_length
          then Inr (py_drop project_root_path_length cp)
          else Inl AssertionError)"

text \<open>
  \<open>__add_files\<close>. The result is the text appended to the script and the exception
  that ended the loop, if any.
\<close>

fun add_files :: "int \<Rightarrow> P4File list \<Rightarrow> string \<times> py_error option" where
  "add_files root_len [] = ([], None)"
| "add_files root_len (p4file # snapshot) =
     (case relative_path root_len p4file of
        Inl e \<Rightarrow> ([], Some e)
      | Inr path \<Rightarrow>
          (let line =
             (if is_delete p4file then ''D '' @ path @ [CHR 0x0A]
              else if pf_sha1 p4file = [] then []
              else (let mode = (if is_x_type p4file then ''100755''
                                else if is_symlink p4file then ''120000''
                                else ''100644'')
                    in ''M '' @ mode @ '' '' @ pf_sha1 p4file @ '' '' @ path @ [CHR 0x0A]));
               (more_lines, err) = add_files root_len snapshot
           in (line @ more_lines, err)))"

text \<open>
  The regular expression \<open>key.capitalize() + ': (.+) (<.+>) (\d+) (.+)'\<close> and its four
  groups, read off the pieces of a match.
\<close>

definition key_regex :: "string \<Rightarrow> rx_item list" where
  "key_regex capitalized =
     [Lit (capitalized @ '': ''), Dots, Lit '' '', Lit ''<'', Dots, Lit ''>'', Lit '' '',
      Digits, Lit '' '', Dots]"

definition key_groups :: "string list \<Rightarrow> string \<times> string \<times> string \<times> string" where
  "key_groups ps = (ps ! 1, ps ! 3 @ ps ! 4 @ ps ! 5, ps ! 7, ps ! 9)"

text \<open>
  The loop \<open>for key in ('author', 'committer')\<close> of \<open>add_commit\<close>: the lines it
  appends and whether any key matched (\<open>committer_added\<close>).
\<close>

fun trailer_lines :: "(string \<times> string) list \<Rightarrow> string \<Rightarrow> string \<times> bool" where
  "trailer_lines [] suffix0 = ([], False)"
| "trailer_lines ((key, capitalized) # keys) suffix0 =
     (let (rest_lines, rest_added) = trailer_lines keys suffix0
      in case rsearch (key_regex capitalized) suffix0 of
           None \<Rightarrow> (rest_lines, rest_added)
         | Some ps \<Rightarrow>
             (let (fullname, email, time0, timezone0) = key_groups ps
              in (key @ '' '' @ fullname @ '' '' @ email @ '' '' @ time0 @ '' '' @ timezone0
                    @ [CHR 0x0A] @ rest_lines, True)))"

text \<open>\<open>__add_data\<close>: the length counts the bytes of the string.\<close>

definition add_data :: "string \<Rightarrow> string" where
  "add_data str = ''data '' @ py_str (int (length str)) @ [CHR 0x0A] @ str"

text \<open>What the script builder knows beyond the changelist.\<close>

record FastImport =
  fi_timezone :: string
  fi_project_root_path_length :: int
  fi_branchname :: string
  fi_full_name_for_user :: "string \<Rightarrow> string"
  fi_email_for_user :: "string \<Rightarrow> string"

text \<open>
  \<open>add_commit\<close> in its parts. \<open>commit_head\<close> is the branch header and the mark;
  \<open>parent_ref\<close> is the reference to the parent, where \<open>last\<close> is the mark or sha1
  of the parent, \<open>None\<close> or empty for the first commit.
\<close>

definition commit_head :: "FastImport \<Rightarrow> P4Changelist \<Rightarrow> string" where
  "commit_head self cl =
     ''commit refs/heads/'' @ fi_branchname self @ [CHR 0x0A]
     @ ''mark : '' @ cl_change cl @ [CHR 0x0A]"

definition parent_ref :: "string option \<Rightarrow> string" where
  "parent_ref last0 =
     (case last0 of
        None \<Rightarrow> ''deleteall'' @ [CHR 0x0A]
      | Some l \<Rightarrow>
          if l = [] then ''deleteall'' @ [CHR 0x0A]
          else if length l = 40 then ''from '' @ l @ [CHR 0x0A]
          else ''from :'' @ l @ [CHR 0x0A])"

text \<open>
  \<open>add_commit\<close>. \<open>description[0:impidx-1]\<close> is \<open>description[0:-1]\<close> when the
  header is at index 0.
\<close>

definition add_commit :: "FastImport \<Rightarrow> P4Changelist \<Rightarrow> string option \<Rightarrow> string \<times> py_error option" where
  "add_commit self cl last0 =
     (let impidx = str_find P4GF_IMPORT_HEADER (cl_description cl);
          (trailer, committer_added) =
            (case impidx of
               None \<Rightarrow> ([], False)
             | Some i \<Rightarrow> trailer_lines [(''author'', ''Author''), (''committer'', ''Committer'')]
                          (drop i (cl_description cl)));
          committer_line =
            (if committer_added then []
             else ''committer '' @ fi_full_name_for_user self (cl_user cl) @ '' ''
                  @ fi_email_for_user self (cl_user cl) @ '' '' @ cl_time cl @ '' ''
                  @ fi_timezone self @ [CHR 0x0A]);
          desc = (if committer_added
                  then (case impidx of
                          Some (Suc i) \<Rightarrow> take i (cl_description cl)
                        | _ \<Rightarrow> take (length (cl_description cl) - 1) (cl_description cl))
                  else cl_description cl);
          (file_lines, err) = add_files (fi_project_root_path_length self) (cl_files cl)
      in (commit_head self cl @ trailer @ committer_line @ add_data desc @ parent_ref last0
            @ file_lines, err))"

text \<open>
  The identities that survive the round trip through a changelist description: a name
  that is not empty and has no line feed; an e-mail address in angle brackets, not
  empty, with no line feed and no further \<open><\<close>; a time stamp of decimal digits; a
  time zone of a sign and digits. \<open>emit_ident\<close> is the line of the commit record that
  the specification expects for an identity.
\<close>

definition tz_char :: "char \<Rightarrow> bool" where
  "tz_char c = (c \<in> set ''+-0123456789'')"

definition wf_ident :: "ident \<Rightarrow> bool" where
  "wf_ident d =
     (id_user d \<noteq> [] \<and> CHR 0x0A \<notin> set (id_user d)
      \<and> 3 \<le> length (id_email d) \<and> hd (id_email d) = CHR ''<'' \<and> last (id_email d) = CHR ''>''
      \<and> CHR 0x0A \<notin> set (id_email d) \<and> CHR ''<'' \<notin> set (tl (id_email d))
      \<and> id_date d \<noteq> [] \<and> list_all is_digit (id_date d)
      \<and> id_timezone d \<noteq> [] \<and> list_all tz_char (id_timezone d))"

definition no_committer_label :: "ident \<Rightarrow> bool" where
  "no_committer_label d =
     (str_find ''Committer:'' (id_user d) = None \<and> str_find ''Committer:'' (id_email d) = None)"

definition emit_ident :: "string \<Rightarrow> ident \<Rightarrow> string" where
  "emit_ident key d =
     key @ '' '' @ id_user d @ '' '' @ id_email d @ '' '' @ id_date d @ '' '' @ id_timezone d
     @ [CHR 0x0A]"





text \<open>What \<open>change_description\<close> appends after the committer line.\<close>

definition trailer_tail :: "commit \<Rightarrow> string \<Rightarrow> string \<Rightarrow> string" where
  "trailer_tail c pusher author =
     (if pusher \<noteq> author then [CHR 0x0A] @ '' Pusher: '' @ pusher else [])
     @ [CHR 0x0A] @ '' sha1: '' @ c_sha1 c"

section \<open>Exporter (p4gf\_copy\_to\_p4.py)\<close>

text \<open>
  The exporter talks to the server through two connections: the one of the context
  (\<open>MainConn\<close>) and the one that \<open>revert_and_raise\<close> opens for the rollback
  (\<open>RollbackConn\<close>). Every command is logged with its words.
\<close>

datatype conn = MainConn | RollbackConn

text \<open>
  What the exporter reads of the answer to one command: the exception the client
  library raises instead of answering, whether the answer has any row, the
  \<open>submittedChange\<close> of a submit, the \<open>change\<close> fields of the rows of
  \<open>p4 changes\<close>, and the texts of the messages whose id is in
  \<open>MSGID_CANNOT_OPEN\<close>.
\<close>

record p4_reply =
  rp_raises :: "string option"
  rp_rows :: bool
  rp_change :: "string option"
  rp_changes :: "string list"
  rp_cannot_open :: "string list"

text \<open>An argument of a pending operation: a path, or the two paths of a move.\<close>

datatype path_arg = OnePath string | MovePair string string

datatype mirror_event = AddCommits "string list" | AddObjectsToP4

text \<open>
  The state the exporter changes: the commands sent so far, the files present in the
  local workspace of the client, the pending operations (\<open>self.addeditdelete\<close>, in
  insertion order) and the calls made to the Object Mirror.
\<close>

record g2p_world =
  p4log :: "(conn \<times> string list) list"
  ws_files :: "string set"
  addeditdelete :: "(string \<times> path_arg list) list"
  mirror_log :: "mirror_event list"

text \<open>
  What the exporter reads and does not change. \<open>replies k\<close> answers the command
  sent when \<open>k\<close> commands had been sent before. \<open>tree_files sha1\<close> are the files
  of the git work tree once \<open>sha1\<close> is checked out. \<open>edit_filetype\<close> is the file
  type chosen for an edit (\<open>os.stat\<close> on both files and \<open>_toggle_filetype\<close>,
  whose \<open>fstat\<close> queries change nothing). \<open>protects_error\<close> is the verdict of
  \<open>ProtectsChecker\<close>, \<open>lock_canceled\<close> that of \<open>ctx.heartbeat\<close>.
\<close>

record g2p_env =
  replies :: "nat \<Rightarrow> p4_reply"
  rollback_connects :: bool
  tree_files :: "string \<Rightarrow> string set"
  lookup_by_email :: "string \<Rightarrow> string option"
  p4user_exists :: "string \<Rightarrow> bool"
  protects_error :: "string \<Rightarrow> blob list \<Rightarrow> string option"
  edit_filetype :: "string \<Rightarrow> blob \<Rightarrow> string option"
  env_authenticated_p4user :: string
  env_p4client :: string
  env_contentlocalroot :: string
  traceback_text :: string
  lock_canceled :: "commit \<Rightarrow> bool"
  env_lock_name :: string

definition p4_call :: "g2p_env \<Rightarrow> conn \<Rightarrow> string list \<Rightarrow> g2p_world \<Rightarrow> p4_reply \<times> g2p_world" where
  "p4_call env c cmd w = (replies env (length (p4log w)), w\<lparr>p4log := p4log w @ [(c, cmd)]\<rparr>)"

text \<open>
  \<open>remove_added_files\<close>: \<open>os.unlink\<close> on every path of every pending \<open>add\<close>
  operation; unlinking a file that is not there raises \<open>OSError\<close>.
\<close>

fun unlink_paths :: "path_arg list \<Rightarrow> string set \<Rightarrow> py_error option \<times> string set" where
  "unlink_paths [] files = (None, files)"
| "unlink_paths (OnePath path # paths) files =
     (if path \<in> files then unlink_paths paths (files - {path}) else (Some OSError, files))"
| "unlink_paths (MovePair a b # paths) files = (Some TypeError, files)"

fun remove_added_files ::
  "(string \<times> path_arg list) list \<Rightarrow> string set \<Rightarrow> py_error option \<times> string set" where
  "remove_added_files [] files = (None, files)"
| "remove_added_files ((operation, paths) # ops) files =
     (if hd (py_split (CHR '' '') operation) = ''add''
      then (case unlink_paths paths files of
              (Some e, files1) \<Rightarrow> (Some e, files1)
            | (None, files1) \<Rightarrow> remove_added_files ops files1)
      else remove_added_files ops files)"

text \<open>
  \<open>revert_and_raise\<close> always raises; the result is the exception. When the rollback
  connection is made (\<open>connect_p4\<close> returns a connection, its version check passing),
  \<open>opened\<close> is asked and, if anything is open, everything under the client is
  reverted; an exception of either command leaves the function at once. Then the added
  files are removed and \<open>RuntimeError\<close> is raised with the message, or with the
  stack when the message is empty.
\<close>

definition import_failed :: "g2p_env \<Rightarrow> string \<Rightarrow> py_error" where
  "import_failed env errmsg =
     RuntimeError (''import failed: '' @ (if errmsg = [] then traceback_text env else errmsg))"

definition revert_and_raise :: "g2p_env \<Rightarrow> g2p_world \<Rightarrow> string \<Rightarrow> py_error \<times> g2p_world" where
  "revert_and_raise env w errmsg =
     (case (if rollback_connects env
            then (let (opened, w0) = p4_call env RollbackConn [''opened''] w in
                  case rp_raises opened of
                    Some m \<Rightarrow> (Some (P4Exception m), w0)
                  | None \<Rightarrow>
                      if rp_rows opened
                      then (let (r, w1) = p4_call env RollbackConn
                                    [''revert'', ''//'' @ env_p4client env @ ''/...''] w0
                            in case rp_raises r of
                                 Some m \<Rightarrow> (Some (P4Exception m), w1)
                               | None \<Rightarrow> (None, w1))
                      else (None, w0))
            else (None, w)) of
        (Some e, w1) \<Rightarrow> (e, w1)
      | (None, w1) \<Rightarrow>
          (case remove_added_files (addeditdelete w1) (ws_files w1) of
             (Some e, files) \<Rightarrow> (e, w1\<lparr>ws_files := files\<rparr>)
           | (None, files) \<Rightarrow> (import_failed env errmsg, w1\<lparr>ws_files := files\<rparr>)))"

text \<open>
  \<open>_p4run\<close> followed by \<open>check_p4_messages\<close>: the command may raise
  \<open>P4Exception\<close>; a message that says a file cannot be opened rolls back and raises.
\<close>

definition p4run :: "g2p_env \<Rightarrow> string list \<Rightarrow> g2p_world \<Rightarrow> py_error option \<times> g2p_world" where
  "p4run env cmd w =
     (let (r, w1) = p4_call env MainConn cmd w in
      case rp_raises r of
        Some m \<Rightarrow> (Some (P4Exception m), w1)
      | None \<Rightarrow>
          if rp_cannot_open r = [] then (None, w1)
          else (let (e, w2) = revert_and_raise env w1 (join_lines (rp_cannot_open r))
                in (Some e, w2)))"

definition escape_path :: "string \<Rightarrow> string" where
  "escape_path path =
     concat (map (\<lambda>c. if c = CHR ''%'' then ''%25'' else if c = CHR ''#'' then ''%23''
                       else if c = CHR ''@'' then ''%40'' else if c = CHR ''*'' then ''%2A''
                       else [c]) path)"

definition check_valid_filename :: "string \<Rightarrow> string option" where
  "check_valid_filename name =
     (if str_find ''...'' name \<noteq> None then Some (''bad filename: '' @ name) else None)"

text \<open>
  \<open>p4type_from_mode\<close>: \<open>int(mode, 8)\<close> raises \<open>ValueError\<close> unless the mode is
  octal digits; bit \<open>0o100\<close> is the owner's execute permission.
\<close>

definition octal_val :: "string \<Rightarrow> nat option" where
  "octal_val m =
     (if m \<noteq> [] \<and> list_all (\<lambda>c. c \<in> set ''01234567'') m
      then Some (foldl (\<lambda>a c. 8 * a + digit_val c) 0 m) else None)"

definition p4type_from_mode :: "string \<Rightarrow> py_error + string option" where
  "p4type_from_mode m =
     (if m = ''120000'' then Inr (Some ''symlink'')
      else case octal_val m of
             None \<Rightarrow> Inl ValueError
           | Some v \<Rightarrow> if (v div 64) mod 2 = 1 then Inr (Some ''+x'') else Inr None)"

text \<open>\<open>setup_p4_command\<close>: append to the list of the operation, or start it.\<close>

fun setup_p4_command ::
  "string \<Rightarrow> path_arg \<Rightarrow> (string \<times> path_arg list) list \<Rightarrow> (string \<times> path_arg list) list" where
  "setup_p4_command command p4path [] = [(command, [p4path])]"
| "setup_p4_command command p4path ((operation, paths) # ops) =
     (if operation = command then (operation, paths @ [p4path]) # ops
      else (operation, paths) # setup_p4_command command p4path ops)"

text \<open>\<open>shutil.copyfile\<close> into the workspace: the source must exist.\<close>

definition copyfile :: "bool \<Rightarrow> string \<Rightarrow> g2p_world \<Rightarrow> py_error option \<times> g2p_world" where
  "copyfile src_exists dst w =
     (if src_exists then (None, w\<lparr>ws_files := insert dst (ws_files w)\<rparr>) else (Some OSError, w))"

definition add_or_edit_blob ::
  "g2p_env \<Rightarrow> string \<Rightarrow> blob \<Rightarrow> g2p_world \<Rightarrow> py_error option \<times> g2p_world" where
  "add_or_edit_blob env sha1 blob w =
     (let p4path = env_contentlocalroot env @ b_path blob;
          isedit = (p4path \<in> ws_files w);
          src_exists = (b_path blob \<in> tree_files env sha1)
      in if isedit
         then (if \<not> src_exists then (Some OSError, w)
               else (let p4type = edit_filetype env p4path blob;
                         t = (case p4type of None \<Rightarrow> [] | Some ty \<Rightarrow>
                                if ty = [] then [] else '' -t '' @ ty)
                     in (None, w\<lparr>addeditdelete :=
                           setup_p4_command (''edit'' @ t) (OnePath p4path) (addeditdelete w)\<rparr>)))
         else (case p4type_from_mode (b_mode blob) of
                 Inl e \<Rightarrow> (Some e, w)
               | Inr p4type \<Rightarrow>
                   (case copyfile src_exists p4path w of
                      (Some e, w1) \<Rightarrow> (Some e, w1)
                    | (None, w1) \<Rightarrow>
                        (let t = (case p4type of None \<Rightarrow> [] | Some ty \<Rightarrow> '' -t '' @ ty)
                         in (None, w1\<lparr>addeditdelete :=
                               setup_p4_command (''add -f'' @ t) (OnePath p4path)
                                 (addeditdelete w1)\<rparr>)))))"

definition rename_blob ::
  "g2p_env \<Rightarrow> string \<Rightarrow> blob \<Rightarrow> g2p_world \<Rightarrow> py_error option \<times> g2p_world" where
  "rename_blob env sha1 blob w =
     (let p4frompath = env_contentlocalroot env @ b_path blob;
          p4topath = env_contentlocalroot env @ b_topath blob
      in case copyfile (b_topath blob \<in> tree_files env sha1) p4topath w of
           (Some e, w1) \<Rightarrow> (Some e, w1)
         | (None, w1) \<Rightarrow>
             (None, w1\<lparr>addeditdelete :=
                setup_p4_command ''move'' (MovePair p4frompath p4topath) (addeditdelete w1)\<rparr>))"

definition copy_blob :: "g2p_env \<Rightarrow> blob \<Rightarrow> g2p_world \<Rightarrow> py_error option \<times> g2p_world" where
  "copy_blob env blob w =
     (let p4frompath = env_contentlocalroot env @ b_path blob;
          p4topath = env_contentlocalroot env @ b_topath blob
      in case p4run env [''copy'', ''-v'', escape_path p4frompath, escape_path p4topath] w of
           (Some e, w1) \<Rightarrow> (Some e, w1)
         | (None, w1) \<Rightarrow> copyfile (p4frompath \<in> ws_files w1) p4topath w1)"

definition delete_blob :: "g2p_env \<Rightarrow> blob \<Rightarrow> g2p_world \<Rightarrow> g2p_world" where
  "delete_blob env blob w =
     w\<lparr>addeditdelete :=
         setup_p4_command ''delete'' (OnePath (env_contentlocalroot env @ b_path blob))
           (addeditdelete w)\<rparr>"

text \<open>The loops of \<open>run_p4_commands\<close>: one \<open>move\<close> per pair, \<open>os.remove\<close> per path.\<close>

fun move_pairs :: "g2p_env \<Rightarrow> path_arg list \<Rightarrow> g2p_world \<Rightarrow> py_error option \<times> g2p_world" where
  "move_pairs env [] w = (None, w)"
| "move_pairs env (MovePair frompath topath # pairs) w =
     (case p4run env [''move'', ''-k'', escape_path frompath, escape_path topath] w of
        (Some e, w1) \<Rightarrow> (Some e, w1)
      | (None, w1) \<Rightarrow> move_pairs env pairs w1)"
| "move_pairs env (OnePath path # pairs) w = (Some TypeError, w)"

fun remove_paths :: "path_arg list \<Rightarrow> g2p_world \<Rightarrow> py_error option \<times> g2p_world" where
  "remove_paths [] w = (None, w)"
| "remove_paths (OnePath path # paths) w =
     (if path \<in> ws_files w then remove_paths paths (w\<lparr>ws_files := ws_files w - {path}\<rparr>)
      else (Some OSError, w))"
| "remove_paths (MovePair a b # paths) w = (Some TypeError, w)"

definition arg_path :: "path_arg \<Rightarrow> string" where
  "arg_path a = (case a of OnePath path \<Rightarrow> path | MovePair frompath topath \<Rightarrow> frompath)"

text \<open>One pending operation of \<open>run_p4_commands\<close>.\<close>

definition run_operation ::
  "g2p_env \<Rightarrow> string \<Rightarrow> path_arg list \<Rightarrow> g2p_world \<Rightarrow> py_error option \<times> g2p_world" where
  "run_operation env operation paths w =
     (let cmd0 = py_split (CHR '' '') operation;
          cmd = (if hd cmd0 \<noteq> ''add'' then cmd0 @ [''-k''] else cmd0)
      in if hd cmd = ''move''
         then (case p4run env ([''edit'', ''-k''] @ map (\<lambda>a. escape_path (arg_path a)) paths) w of
                 (Some e, w1) \<Rightarrow> (Some e, w1)
               | (None, w1) \<Rightarrow> move_pairs env paths w1)
         else
           (let has_t = (str_find ''edit -t'' operation \<noteq> None);
                reopen = (if has_t then [''reopen'', ''-t'', cmd ! 2] else []);
                cmd1 = (if has_t then take 1 cmd @ drop 3 cmd else cmd);
                args = (if hd cmd1 \<noteq> ''add'' then map (\<lambda>a. escape_path (arg_path a)) paths
                        else map arg_path paths)
            in case p4run env (cmd1 @ args) w of
                 (Some e, w1) \<Rightarrow> (Some e, w1)
               | (None, w1) \<Rightarrow>
                   (case (if reopen \<noteq> []
                          then p4run env (reopen @ map (\<lambda>a. escape_path (arg_path a)) paths) w1
                          else (None, w1)) of
                      (Some e, w2) \<Rightarrow> (Some e, w2)
                    | (None, w2) \<Rightarrow>
                        if hd cmd1 = ''delete'' then remove_paths paths w2 else (None, w2))))"

fun run_operations ::
  "g2p_env \<Rightarrow> (string \<times> path_arg list) list \<Rightarrow> g2p_world \<Rightarrow> py_error option \<times> g2p_world" where
  "run_operations env [] w = (None, w)"
| "run_operations env ((operation, paths) # ops) w =
     (case run_operation env operation paths w of
        (Some e, w1) \<Rightarrow> (Some e, w1)
      | (None, w1) \<Rightarrow> run_operations env ops w1)"

definition run_p4_commands :: "g2p_env \<Rightarrow> g2p_world \<Rightarrow> py_error option \<times> g2p_world" where
  "run_p4_commands env w = run_operations env (addeditdelete w) w"

text \<open>The two passes of \<open>copy_blobs\<close> over the file changes of a commit.\<close>

fun pass_one :: "g2p_env \<Rightarrow> string \<Rightarrow> blob list \<Rightarrow> g2p_world \<Rightarrow> py_error option \<times> g2p_world" where
  "pass_one env sha1 [] w = (None, w)"
| "pass_one env sha1 (blob # blobs) w =
     (case (if b_action blob = ''R'' then rename_blob env sha1 blob w
            else if b_action blob = ''C'' then copy_blob env blob w
            else (None, w)) of
        (Some e, w1) \<Rightarrow> (Some e, w1)
      | (None, w1) \<Rightarrow> pass_one env sha1 blobs w1)"

fun pass_two :: "g2p_env \<Rightarrow> string \<Rightarrow> blob list \<Rightarrow> g2p_world \<Rightarrow> py_error option \<times> g2p_world" where
  "pass_two env sha1 [] w = (None, w)"
| "pass_two env sha1 (blob # blobs) w =
     (case (if b_action blob = ''M'' then add_or_edit_blob env sha1 blob w
            else if b_action blob = ''D'' then (None, delete_blob env blob w)
            else (None, w)) of
        (Some e, w1) \<Rightarrow> (Some e, w1)
      | (None, w1) \<Rightarrow> pass_two env sha1 blobs w1)"

definition copy_blobs ::
  "g2p_env \<Rightarrow> string \<Rightarrow> blob list \<Rightarrow> g2p_world \<Rightarrow> py_error option \<times> g2p_world" where
  "copy_blobs env sha1 blobs w =
     (case pass_one env sha1 blobs w of
        (Some e, w1) \<Rightarrow> (Some e, w1)
      | (None, w1) \<Rightarrow>
          (case run_p4_commands env w1 of
             (Some e, w2) \<Rightarrow> (Some e, w2)
           | (None, w2) \<Rightarrow>
               (case pass_two env sha1 blobs (w2\<lparr>addeditdelete := []\<rparr>) of
                  (Some e, w3) \<Rightarrow> (Some e, w3)
                | (None, w3) \<Rightarrow> run_p4_commands env w3)))"

text \<open>
  \<open>p4_submit\<close>: submit, then fetch the changelist and save it with the author and
  date (\<open>fetch_change\<close> and \<open>save_change\<close> run \<open>change -o\<close> and
  \<open>change -i -f\<close>). The result is the change number as \<open>str\<close> prints it.
\<close>

definition p4_submit ::
  "g2p_env \<Rightarrow> string \<Rightarrow> string \<Rightarrow> string \<Rightarrow> g2p_world \<Rightarrow> (py_error + string) \<times> g2p_world" where
  "p4_submit env desc author author_date w =
     (let (r, w1) = p4_call env MainConn [''submit'', ''-d'', desc] w in
      case rp_raises r of
        Some m \<Rightarrow> (Inl (P4Exception m), w1)
      | None \<Rightarrow>
          (let changenum = (case rp_change r of None \<Rightarrow> ''None'' | Some n \<Rightarrow> n);
               (r2, w2) = p4_call env MainConn [''change'', ''-o'', changenum] w1
           in case rp_raises r2 of
                Some m \<Rightarrow> (Inl (P4Exception m), w2)
              | None \<Rightarrow>
                  (let (r3, w3) = p4_call env MainConn
                          [''change'', ''-i'', ''-f'', author, author_date] w2
                   in case rp_raises r3 of
                        Some m \<Rightarrow> (Inl (P4Exception m), w3)
                      | None \<Rightarrow> (Inr changenum, w3))))"

text \<open>\<open>email.strip('<>')\<close>.\<close>

definition strip_angle :: "string \<Rightarrow> string" where
  "strip_angle s =
     rev (dropWhile (\<lambda>c. c = CHR ''<'' \<or> c = CHR ''>'')
            (rev (dropWhile (\<lambda>c. c = CHR ''<'' \<or> c = CHR ''>'') s)))"

definition merge_message :: "string \<Rightarrow> string" where
  "merge_message sha1 =
     ''Merge commit '' @ sha1 @ '' not permitted. Rebase to create a linear history.''"

text \<open>The first bad file name of the loop over \<open>commit['files']\<close>.\<close>

fun first_bad_filename :: "blob list \<Rightarrow> string option" where
  "first_bad_filename [] = None"
| "first_bad_filename (blob # blobs) =
     (case check_valid_filename (b_path blob) of
        Some err \<Rightarrow> Some err
      | None \<Rightarrow> first_bad_filename blobs)"

text \<open>
  The body of the second \<open>try\<close> block of \<open>copy_commit\<close>: \<open>opened\<close>, and the
  submit when anything is open. The result is the change number, \<open>None\<close> for an
  empty commit, or the exception raised inside the block.
\<close>

definition opened_and_submit ::
  "g2p_env \<Rightarrow> string \<Rightarrow> string \<Rightarrow> string \<Rightarrow> g2p_world
     \<Rightarrow> (py_error + string option) \<times> g2p_world" where
  "opened_and_submit env desc author_p4user author_date w =
     (let (opened, w1) = p4_call env MainConn [''opened''] w in
      case rp_raises opened of
        Some m \<Rightarrow> (Inl (P4Exception m), w1)
      | None \<Rightarrow>
          if rp_rows opened
          then (case p4_submit env desc author_p4user author_date w1 of
                  (Inl e, w2) \<Rightarrow> (Inl e, w2)
                | (Inr changenum, w2) \<Rightarrow> (Inr (Some changenum), w2))
          else (Inr None, w1))"

text \<open>
  \<open>copy_commit\<close>: the mark \<open>:change sha1\<close> of the submitted changelist, \<open>None\<close>
  for an empty commit, or the exception raised. Both \<open>try\<close> blocks catch
  \<open>P4Exception\<close> only.
\<close>

definition copy_commit ::
  "g2p_env \<Rightarrow> commit \<Rightarrow> g2p_world \<Rightarrow> (py_error + string option) \<times> g2p_world" where
  "copy_commit env commit w0 =
     (let w = w0\<lparr>addeditdelete := []\<rparr> in
      if c_merge commit \<noteq> None
      then (let (e, w1) = revert_and_raise env w (merge_message (c_sha1 commit)) in (Inl e, w1))
      else
        (let email = strip_angle (id_email (c_author commit));
             user = lookup_by_email env email
         in if user = None \<or> \<not> p4user_exists env (the user)
            then (let (e, w1) = revert_and_raise env w
                        (''User '' @ [CHR 0x27] @ email @ [CHR 0x27] @ '' not permitted to commit'')
                  in (Inl e, w1))
            else
              (let author_p4user = the user in
               case first_bad_filename (c_files commit) of
                 Some err \<Rightarrow> (let (e, w1) = revert_and_raise env w err in (Inl e, w1))
               | None \<Rightarrow>
                   (case protects_error env author_p4user (c_files commit) of
                      Some msg \<Rightarrow> (let (e, w1) = revert_and_raise env w msg in (Inl e, w1))
                    | None \<Rightarrow>
                        (case copy_blobs env (c_sha1 commit) (c_files commit) w of
                           (Some (P4Exception m), w1) \<Rightarrow>
                             (let (e, w2) = revert_and_raise env w1 m in (Inl e, w2))
                         | (Some e, w1) \<Rightarrow> (Inl e, w1)
                         | (None, w1) \<Rightarrow>
                             (let pusher_p4user = env_authenticated_p4user env;
                                  desc = change_description commit pusher_p4user author_p4user
                              in case opened_and_submit env desc author_p4user
                                        (id_date (c_author commit)) w1 of
                                   (Inl (P4Exception m), w2) \<Rightarrow>
                                     (let (e, w3) = revert_and_raise env w2 m in (Inl e, w3))
                                 | (Inl e, w2) \<Rightarrow> (Inl e, w2)
                                 | (Inr None, w2) \<Rightarrow> (Inr None, w2)
                                 | (Inr (Some changenum), w2) \<Rightarrow>
                                     (Inr (Some ('':'' @ changenum @ '' '' @ c_sha1 commit)),
                                      w2)))))))"

text \<open>The commands that the fast-export parser yields.\<close>

datatype fe_command = Commit commit | Reset string | OtherCommand string

text \<open>\<open>mark_to_commit_changelist\<close>: \<open>r[1]\<close> raises \<open>IndexError\<close> without a space.\<close>

definition mark_to_commit_changelist :: "string \<Rightarrow> py_error + (string \<times> string)" where
  "mark_to_commit_changelist mark =
     (let r = py_split (CHR '' '') (tl mark)
      in if length r < 2 then Inl IndexError else Inr (r ! 1, r ! 0))"

definition conflict_message :: string where
  "conflict_message =
     ''Conflicting change from Perforce caused one or more git commits to fail. Time to pull, rebase, and try again.''"

text \<open>
  The \<open>for\<close> loop of \<open>copy\<close> over the commands, on the world, the conflict checker
  and the list \<open>marks\<close>. It runs to the end, leaves by \<open>break\<close> when \<open>check\<close>
  returns something true, or is left by an exception. The query of \<open>check\<close> is sent
  on the main connection and answered like every other command.
\<close>

datatype loop_end = LoopCompleted | LoopBroke | LoopRaised py_error

fun copy_loop ::
  "g2p_env \<Rightarrow> fe_command list \<Rightarrow> g2p_world \<times> G2PConflictChecker \<times> string list
     \<Rightarrow> loop_end \<times> (g2p_world \<times> G2PConflictChecker \<times> string list)" where
  "copy_loop env [] st = (LoopCompleted, st)"
| "copy_loop env (Reset ref # rest) st = copy_loop env rest st"
| "copy_loop env (OtherCommand name # rest) st =
     (LoopRaised (RuntimeError (''Unexpected fast-export command: '' @ name)), st)"
| "copy_loop env (Commit c # rest) (w, checker, marks) =
     (if lock_canceled env c
      then (LoopRaised (RuntimeError (''Canceling: lock '' @ env_lock_name env @ '' lost.'')),
            (w, checker, marks))
      else
        (case copy_commit env c w of
           (Inl e, w1) \<Rightarrow> (LoopRaised e, (w1, checker, marks))
         | (Inr None, w1) \<Rightarrow> copy_loop env rest (w1, checker, marks)
         | (Inr (Some mark), w1) \<Rightarrow>
             (case mark_to_commit_changelist mark of
                Inl e \<Rightarrow> (LoopRaised e, (w1, checker, marks))
              | Inr (commit_sha1, changelist_number) \<Rightarrow>
                  (case record_commit checker (Some commit_sha1) (Some changelist_number) of
                     Inl e \<Rightarrow> (LoopRaised e, (w1, checker, marks))
                   | Inr checker1 \<Rightarrow>
                       (let (r, w2) = p4_call env MainConn
                              [''changes'', ''-m5'', ''-ssubmitted'',
                               check_path_at (env_p4client env) checker1] w1;
                            (found, checker2) =
                              check (env_p4client env)
                                (\<lambda>q. case rp_raises r of
                                        Some m \<Rightarrow> Inl (P4Exception m)
                                      | None \<Rightarrow> Inr (rp_changes r))
                                checker1
                        in case found of
                             Inl e \<Rightarrow> (LoopRaised e, (w2, checker2, marks))
                           | Inr n \<Rightarrow>
                               if truthy n then (LoopBroke, (w2, checker2, marks))
                               else copy_loop env rest (w2, checker2, marks @ [mark]))))))"

text \<open>
  \<open>copy\<close>, from the loop on: \<open>commands\<close> is what \<open>FastExport.run\<close> parsed and
  \<open>checker\<close> the conflict checker built before it. The \<open>finally\<close> block hands the
  marks to the Object Mirror whatever ended the loop; an exception of the loop is then
  still raised, and otherwise the conflict error when the checker holds a conflict.
\<close>

definition copy ::
  "g2p_env \<Rightarrow> fe_command list \<Rightarrow> G2PConflictChecker \<Rightarrow> g2p_world
     \<Rightarrow> py_error option \<times> g2p_world \<times> G2PConflictChecker" where
  "copy env commands checker w =
     (let (fin, (w1, checker1, marks)) = copy_loop env commands (w, checker, []);
          w2 = w1\<lparr>mirror_log := mirror_log w1 @ [AddCommits marks, AddObjectsToP4]\<rparr>
      in case fin of
           LoopRaised e \<Rightarrow> (Some e, w2, checker1)
         | _ \<Rightarrow> if has_conflict checker1 then (Some (RuntimeError conflict_message), w2, checker1)
                else (None, w2, checker1))"

text \<open>
  Two waiters on the same lock. Each process has its own \<open>lock_world\<close>; the
  server's counters pass from one to the other: \<open>on_counters_of src dst\<close> is process
  \<open>dst\<close> resuming on the counters as process \<open>src\<close> left them. A turn of
  \<open>acquire\<close> that ends by releasing an abandoned lock is two server conversations:
  \<open>observe_holder\<close> (the increment, \<open>get_heartbeat\<close> and \<open>check_holder_alive\<close>)
  and \<open>steal_lock\<close> (\<open>self.__has__ = True; self.release()\<close>). In \<open>two_waiters\<close>
  waiter B observes, waiter A then runs its whole \<open>acquire\<close>, and B resumes with
  \<open>steal_lock\<close> and its next turn. The result is A and B at the end, A on the
  counters as B left them.
\<close>

definition on_counters_of :: "lock_world \<Rightarrow> lock_world \<Rightarrow> lock_world" where
  "on_counters_of src dst = dst\<lparr>lock_value := lock_value src, heartbeat_value := heartbeat_value src\<rparr>"

definition observe_holder ::
  "(nat \<Rightarrow> real) \<Rightarrow> lock_world \<Rightarrow> bool \<times> string option \<times> (py_error + bool) \<times> lock_world" where
  "observe_holder clock w =
     (let (acquired, w1) = acquire_attempt w;
          w2 = w1\<lparr>lk := (lk w1)\<lparr>has_lock := acquired\<rparr>\<rparr>;
          (holder, w3) = get_heartbeat w2
      in case holder of
           None \<Rightarrow> (acquired, None, Inr True, w3)
         | Some h \<Rightarrow> (let (t, w4) = read_clock clock w3
                      in (acquired, Some h, check_holder_alive h \<lfloor>t\<rfloor>, w4)))"

definition steal_lock :: "(nat \<Rightarrow> real) \<Rightarrow> lock_ident \<Rightarrow> lock_world \<Rightarrow> lock_world" where
  "steal_lock clock ident w = snd (release clock ident (w\<lparr>lk := (lk w)\<lparr>has_lock := True\<rparr>\<rparr>))"

definition two_waiters ::
  "(nat \<Rightarrow> real) \<Rightarrow> lock_ident \<Rightarrow> lock_ident \<Rightarrow> string \<Rightarrow> real option
     \<Rightarrow> lock_world \<Rightarrow> lock_world \<Rightarrow> lock_world \<times> lock_world" where
  "two_waiters clock identA identB cn ts wA wB =
     (let (acquiredB, holderB, verdictB, wB1) = observe_holder clock wB;
          wA1 = snd (acquire 2 clock identA cn ts (on_counters_of wB1 wA));
          wB2 = steal_lock clock identB (on_counters_of wA1 wB1);
          wB3 = snd (acquire_turn clock identB cn ts (clock 0) wB2)
      in (on_counters_of wB3 wA1, wB3))"

section \<open>Conflict checker: a foreign changelist after everything known\<close>

lemma skip_old_good_hd:
  "g \<in> Some ` set changes \<Longrightarrow> skip_old_good (g # gs) changes = g # gs"
  by simp

text \<open>
  C1, evaluated on the code. The known-good list is \<open>[(c1,p1),(c2,p2)]\<close> with
  \<open>p1\<close>, \<open>p2\<close>, \<open>p3\<close> pairwise different, and the server answers the three
  changelists \<open>p3, p2, p1\<close> (newest first, that is \<open>[p1,p2,p3]\<close> in increasing
  order). \<open>find_conflict_index\<close> returns index 2, but \<open>self.good\<close> still has two
  entries, so \<open>check\<close> raises \<open>IndexError\<close> instead of returning \<open>p3\<close>; the index
  was stored first, so \<open>has_conflict\<close> is true afterwards.
\<close>

theorem check_foreign_tail_index_error:
  assumes "p1 \<noteq> p2" and "p1 \<noteq> p3" and "p2 \<noteq> p3"
    and "good self = [\<lparr>git_commit_sha1 = Some c1, p4_changelist_number = Some p1\<rparr>,
                      \<lparr>git_commit_sha1 = Some c2, p4_changelist_number = Some p2\<rparr>]"
    and "p4_changes (check_path_at p4client self) = Inr [p3, p2, p1]"
  shows "fst (find_conflict_index self [p3, p2, p1]) = Some 2
       \<and> fst (check p4client p4_changes self) = Inl IndexError
       \<and> has_conflict (snd (check p4client p4_changes self))
       \<and> good (snd (check p4client p4_changes self)) = good self"
  using assms by (simp add: check_def find_conflict_index_def has_conflict_def Let_def)

theorem check_foreign_tail_index_error_witness:
  "fst (check ''git-fusion-repo''
         (\<lambda>q. Inr [''12'', ''11'', ''10''])
         \<lparr>good = [\<lparr>git_commit_sha1 = Some ''aaaa'', p4_changelist_number = Some ''10''\<rparr>,
                   \<lparr>git_commit_sha1 = Some ''bbbb'', p4_changelist_number = Some ''11''\<rparr>],
          first_conflict_index = None,
          last_good_change_number = Some ''10''\<rparr>) = Inl IndexError"
  using check_foreign_tail_index_error
    [of "''10''" "''11''" "''12''"
        "\<lparr>good = [\<lparr>git_commit_sha1 = Some ''aaaa'', p4_changelist_number = Some ''10''\<rparr>,
                   \<lparr>git_commit_sha1 = Some ''bbbb'', p4_changelist_number = Some ''11''\<rparr>],
          first_conflict_index = None,
          last_good_change_number = Some ''10''\<rparr>"
        "''aaaa''" "''bbbb''" "\<lambda>q. Inr [''12'', ''11'', ''10'']" "''git-fusion-repo''"]
  by simp

section \<open>Counter lock: a heartbeat that is malformed or in the future\<close>

lemma alive_of_malformed_or_future:
  "malformed_or_future holder now \<Longrightarrow> check_holder_alive holder now = Inr True"
  by (auto simp: malformed_or_future_def check_holder_alive_def Let_def split: option.splits)

lemma split_single: "sep \<notin> set s \<Longrightarrow> py_split_max sep n s = [s]"
  by (cases n) auto

lemma holder_nontrivial:
  assumes "malformed_or_future holder now"
  shows "holder \<noteq> [] \<and> holder \<noteq> ''0''"
proof -
  have "CHR 0x09 \<in> set holder"
  proof (rule ccontr)
    assume "CHR 0x09 \<notin> set holder"
    then have "py_split_max (CHR 0x09) 3 holder = [holder]" by (rule split_single)
    with assms show False by (simp add: malformed_or_future_def)
  qed
  then show ?thesis by auto
qed

lemma turn_alive:
  assumes "1 \<le> lock_value w" and "heartbeat_value w = Some holder"
    and "malformed_or_future holder \<lfloor>clock (ticks w)\<rfloor>"
  shows "acquire_turn clock ident counter_name timeout_secs start w =
     (if timed_out timeout_secs (clock (ticks w + 1) - start)
      then (Raised (RuntimeError (timeout_message (Some holder) counter_name)),
            w\<lparr>lk := (lk w)\<lparr>has_lock := False\<rparr>, lock_value := lock_value w + 1,
              ticks := ticks w + 2,
              trace := trace w @ [Increment, GetHeartbeat, GetHeartbeat]\<rparr>)
      else (Slept,
            w\<lparr>lk := (lk w)\<lparr>has_lock := False\<rparr>, lock_value := lock_value w + 1,
              ticks := ticks w + 2,
              trace := trace w @ [Increment, GetHeartbeat, Sleep RETRY_PERIOD]\<rparr>))"
  using assms holder_nontrivial[OF assms(3)] alive_of_malformed_or_future[OF assms(3)]
  by (simp add: acquire_turn_def acquire_attempt_def get_heartbeat_def read_clock_def
        log_event_def timed_out_def Let_def split: option.splits)

lemma loop_alive:
  assumes "heartbeat_value w = Some holder"
    and "\<forall>k. malformed_or_future holder \<lfloor>clock k\<rfloor>"
    and "1 \<le> lock_value w"
  shows "\<exists>w' ext r. acquire_loop fuel clock ident cn ts start w = (r, w')
      \<and> trace w' = trace w @ ext \<and> set ext \<subseteq> waiting_events
      \<and> heartbeat_value w' = Some holder \<and> 1 \<le> lock_value w'
      \<and> (0 < fuel \<longrightarrow> \<not> has_lock (lk w'))
      \<and> (r = None \<and> length (filter is_sleep ext) = fuel
           \<and> (\<forall>i<fuel. \<not> timed_out ts (clock (ticks w + 2 * i + 1) - start))
         \<or> r = Some (Inl (RuntimeError (timeout_message (Some holder) cn)))
           \<and> timed_out ts (clock (ticks w' - 1) - start))"
  using assms(1,3)
proof (induction fuel arbitrary: w)
  case 0
  then show ?case by simp
next
  case (Suc fuel)
  have mf: "malformed_or_future holder \<lfloor>clock (ticks w)\<rfloor>" using assms(2) by blast
  note turn = turn_alive[where w=w and holder=holder and clock=clock and ident=ident
      and counter_name=cn and timeout_secs=ts and start=start, OF Suc.prems(2) Suc.prems(1) mf]
  show ?case
  proof (cases rule: case_split[of "timed_out ts (clock (ticks w + 1) - start)"])
    case True
    then show ?thesis using turn Suc.prems
      by (simp add: waiting_events_def)
  next
    case False
    define w1 where "w1 = w\<lparr>lk := (lk w)\<lparr>has_lock := False\<rparr>, lock_value := lock_value w + 1,
              ticks := ticks w + 2,
              trace := trace w @ [Increment, GetHeartbeat, Sleep RETRY_PERIOD]\<rparr>"
    have t1: "acquire_turn clock ident cn ts start w = (Slept, w1)"
      using turn False by (simp add: w1_def)
    have "heartbeat_value w1 = Some holder" "1 \<le> lock_value w1"
      using Suc.prems by (simp_all add: w1_def)
    from Suc.IH[OF this] obtain w' ext r where
      IH: "acquire_loop fuel clock ident cn ts start w1 = (r, w')"
        "trace w' = trace w1 @ ext" "set ext \<subseteq> waiting_events"
        "heartbeat_value w' = Some holder" "1 \<le> lock_value w'"
        "0 < fuel \<longrightarrow> \<not> has_lock (lk w')"
        "r = None \<and> length (filter is_sleep ext) = fuel
           \<and> (\<forall>i<fuel. \<not> timed_out ts (clock (ticks w1 + 2 * i + 1) - start))
         \<or> r = Some (Inl (RuntimeError (timeout_message (Some holder) cn)))
           \<and> timed_out ts (clock (ticks w' - 1) - start)"
      by blast
    have hl: "\<not> has_lock (lk w')"
    proof (cases fuel)
      case 0
      then have "w' = w1" using IH(1) by simp
      then show ?thesis by (simp add: w1_def)
    next
      case (Suc n)
      then show ?thesis using IH(6) by simp
    qed
    have "acquire_loop (Suc fuel) clock ident cn ts start w = (r, w')"
      using t1 IH(1) by simp
    moreover have "trace w' = trace w @ ([Increment, GetHeartbeat, Sleep RETRY_PERIOD] @ ext)"
      using IH(2) by (simp add: w1_def)
    moreover have "set ([Increment, GetHeartbeat, Sleep RETRY_PERIOD] @ ext) \<subseteq> waiting_events"
      using IH(3) by (simp add: waiting_events_def)
    moreover have "r = None \<and> length (filter is_sleep ([Increment, GetHeartbeat, Sleep RETRY_PERIOD] @ ext)) = Suc fuel
           \<and> (\<forall>i<Suc fuel. \<not> timed_out ts (clock (ticks w + 2 * i + 1) - start))
         \<or> r = Some (Inl (RuntimeError (timeout_message (Some holder) cn)))
           \<and> timed_out ts (clock (ticks w' - 1) - start)"
    proof -
      have step: "\<forall>i<Suc fuel. \<not> timed_out ts (clock (ticks w + 2 * i + 1) - start)"
        if a: "\<forall>i<fuel. \<not> timed_out ts (clock (ticks w1 + 2 * i + 1) - start)"
      proof (intro allI impI)
        fix i assume "i < Suc fuel"
        show "\<not> timed_out ts (clock (ticks w + 2 * i + 1) - start)"
        proof (cases i)
          case 0
          then show ?thesis using False by simp
        next
          case (Suc j)
          then have "j < fuel" using \<open>i < Suc fuel\<close> by simp
          then have "\<not> timed_out ts (clock (ticks w1 + 2 * j + 1) - start)" using a by blast
          moreover have "ticks w1 + 2 * j + 1 = ticks w + 2 * i + 1"
            using Suc by (simp add: w1_def)
          ultimately show ?thesis by simp
        qed
      qed
      show ?thesis using IH(7) step by (auto simp: is_sleep_def)
    qed
    ultimately show ?thesis using IH(4,5) hl by blast
  qed
qed

text \<open>
  C10. A heartbeat record whose third tab-separated field is not an integer, or is a
  time after \<open>now\<close>, makes \<open>check_holder_alive\<close> return \<open>True\<close>. So an acquirer
  that finds the lock counter taken and such a heartbeat at every reading of its clock
  never releases the lock for the holder: all it does is increment, read the heartbeat
  and sleep; the heartbeat counter keeps the holder's record and the lock counter stays
  taken. The call either is still retrying when the fuel is spent, having slept once per
  turn with the timeout not yet reached at any turn, or has raised the timeout error
  naming the holder at a reading where the timeout had elapsed.
\<close>

theorem malformed_or_future_heartbeat_kept:
  "(malformed_or_future h now \<longrightarrow> check_holder_alive h now = Inr True)
   \<and> (\<not> heartbeat_only (lk w) \<and> 1 \<le> lock_value w \<and> heartbeat_value w = Some holder
        \<and> (\<forall>k. malformed_or_future holder \<lfloor>clock k\<rfloor>) \<longrightarrow>
       (\<exists>w' ext r. acquire fuel clock ident cn ts w = (r, w')
          \<and> trace w' = trace w @ ext \<and> set ext \<subseteq> waiting_events
          \<and> heartbeat_value w' = Some holder \<and> 1 \<le> lock_value w'
          \<and> (0 < fuel \<longrightarrow> \<not> has_lock (lk w'))
          \<and> (r = None \<and> length (filter is_sleep ext) = fuel
               \<and> (\<forall>i<fuel. \<not> timed_out ts (clock (ticks w + 2 * i + 2) - clock (ticks w)))
             \<or> r = Some (Inl (RuntimeError (timeout_message (Some holder) cn)))
               \<and> timed_out ts (clock (ticks w' - 1) - clock (ticks w)))))"
proof (intro conjI impI)
  assume "malformed_or_future h now"
  then show "check_holder_alive h now = Inr True" by (rule alive_of_malformed_or_future)
next
  assume a: "\<not> heartbeat_only (lk w) \<and> 1 \<le> lock_value w \<and> heartbeat_value w = Some holder
        \<and> (\<forall>k. malformed_or_future holder \<lfloor>clock k\<rfloor>)"
  define w0 where "w0 = w\<lparr>ticks := ticks w + 1\<rparr>"
  have acq: "acquire fuel clock ident cn ts w
      = acquire_loop fuel clock ident cn ts (clock (ticks w)) w0"
    using a by (simp add: acquire_def read_clock_def w0_def)
  have "heartbeat_value w0 = Some holder" "\<forall>k. malformed_or_future holder \<lfloor>clock k\<rfloor>"
    "1 \<le> lock_value w0"
    using a by (simp_all add: w0_def)
  from loop_alive[OF this, of fuel ident cn ts "clock (ticks w)"]
  show "\<exists>w' ext r. acquire fuel clock ident cn ts w = (r, w')
          \<and> trace w' = trace w @ ext \<and> set ext \<subseteq> waiting_events
          \<and> heartbeat_value w' = Some holder \<and> 1 \<le> lock_value w'
          \<and> (0 < fuel \<longrightarrow> \<not> has_lock (lk w'))
          \<and> (r = None \<and> length (filter is_sleep ext) = fuel
               \<and> (\<forall>i<fuel. \<not> timed_out ts (clock (ticks w + 2 * i + 2) - clock (ticks w)))
             \<or> r = Some (Inl (RuntimeError (timeout_message (Some holder) cn)))
               \<and> timed_out ts (clock (ticks w' - 1) - clock (ticks w)))"
    unfolding acq by (simp add: w0_def)
qed

theorem malformed_or_future_heartbeat_kept_witness:
  "check_holder_alive (''hostA'' @ [CHR 0x09] @ ''4242'' @ [CHR 0x09] @ ''soon'' @ [CHR 0x09] @ ''git push'') 1000
     = Inr True
   \<and> heartbeat_value (snd (acquire 5 (\<lambda>k. 1000 + real k)
          \<lparr>hostname = ''hostB'', pid = ''77'', argv = ''git pull''\<rparr>
          ''git_fusion_view_v_lock'' (Some 3)
          \<lparr>lk = counter_lock_init False, lock_value = 1,
           heartbeat_value = Some (''hostA'' @ [CHR 0x09] @ ''4242'' @ [CHR 0x09] @ ''soon'' @ [CHR 0x09] @ ''git push''),
           ticks = 0, trace = []\<rparr>))
     = Some (''hostA'' @ [CHR 0x09] @ ''4242'' @ [CHR 0x09] @ ''soon'' @ [CHR 0x09] @ ''git push'')"
  using malformed_or_future_heartbeat_kept[of
      "''hostA'' @ [CHR 0x09] @ ''4242'' @ [CHR 0x09] @ ''soon'' @ [CHR 0x09] @ ''git push''" 1000
      "\<lparr>lk = counter_lock_init False, lock_value = 1,
           heartbeat_value = Some (''hostA'' @ [CHR 0x09] @ ''4242'' @ [CHR 0x09] @ ''soon'' @ [CHR 0x09] @ ''git push''),
           ticks = 0, trace = []\<rparr>"
      "''hostA'' @ [CHR 0x09] @ ''4242'' @ [CHR 0x09] @ ''soon'' @ [CHR 0x09] @ ''git push''"
      "\<lambda>k. 1000 + real k" 5 "\<lparr>hostname = ''hostB'', pid = ''77'', argv = ''git pull''\<rparr>"
      "''git_fusion_view_v_lock''" "Some 3"]
  by (auto simp add: counter_lock_init_def malformed_or_future_def py_int_def py_strip_def
      is_space_def is_digit_def numeral_3_eq_3)

section \<open>Counter lock: reclaiming an abandoned lock\<close>

lemma dead_of_stale: "stale holder now \<Longrightarrow> check_holder_alive holder now = Inr False"
  by (auto simp: stale_def check_holder_alive_def HEARTBEAT_TIMEOUT_SECS_def Let_def
      split: option.splits)

lemma stale_nontrivial:
  assumes "stale holder now"
  shows "holder \<noteq> [] \<and> holder \<noteq> ''0''"
proof -
  have "CHR 0x09 \<in> set holder"
  proof (rule ccontr)
    assume "CHR 0x09 \<notin> set holder"
    then have "py_split_max (CHR 0x09) 3 holder = [holder]" by (rule split_single)
    with assms show False by (simp add: stale_def)
  qed
  then show ?thesis by auto
qed

lemma release_held:
  assumes "has_lock (lk w)"
  shows "\<exists>w'. release clock ident w = (True, w') \<and> \<not> has_lock (lk w') \<and> lock_value w' = 0
     \<and> heartbeat_value w' = None \<and> trace w' = trace w @ [ClearHeartbeat, DeleteLock]
     \<and> heartbeat_only (lk w') = heartbeat_only (lk w)"
  using assms
  by (auto simp: release_def held_duration_seconds_def heartbeat_content_def read_clock_def
      clear_heartbeat_def log_event_def Let_def split: option.splits prod.splits)

lemma turn_stale:
  assumes "1 \<le> lock_value w" and "heartbeat_value w = Some holder"
    and "stale holder \<lfloor>clock (ticks w)\<rfloor>"
  shows "\<exists>w'. acquire_turn clock ident cn ts start w = (Again, w')
     \<and> \<not> has_lock (lk w') \<and> lock_value w' = 0 \<and> heartbeat_value w' = None
     \<and> trace w' = trace w @ [Increment, GetHeartbeat, ClearHeartbeat, DeleteLock]
     \<and> heartbeat_only (lk w') = heartbeat_only (lk w)"
proof -
  define w4 where "w4 = w\<lparr>lock_value := Suc (lock_value w), trace := trace w @ [Increment, GetHeartbeat],
       ticks := Suc (ticks w), lk := (lk w)\<lparr>has_lock := True\<rparr>\<rparr>"
  have "acquire_turn clock ident cn ts start w = (Again, snd (release clock ident w4))"
    using assms stale_nontrivial[OF assms(3)] dead_of_stale[OF assms(3)]
    by (simp add: acquire_turn_def acquire_attempt_def get_heartbeat_def read_clock_def
        log_event_def Let_def w4_def)
  moreover have "has_lock (lk w4)" by (simp add: w4_def)
  from release_held[OF this, of clock ident] obtain w' where
    "release clock ident w4 = (True, w')" "\<not> has_lock (lk w')" "lock_value w' = 0"
    "heartbeat_value w' = None" "trace w' = trace w4 @ [ClearHeartbeat, DeleteLock]"
    "heartbeat_only (lk w') = heartbeat_only (lk w4)"
    by blast
  ultimately show ?thesis by (simp add: w4_def)
qed

lemma turn_free:
  assumes "lock_value w = 0"
  shows "\<exists>w' ext. acquire_turn clock ident cn ts start w = (Acquired, w')
     \<and> has_lock (lk w') \<and> lock_value w' = 1
     \<and> trace w' = trace w @ [Increment] @ ext
     \<and> (ext = [] \<and> heartbeat_value w' = heartbeat_value w
        \<or> (\<exists>c. ext = [SetHeartbeat c] \<and> heartbeat_value w' = Some c))"
  using assms
  by (auto simp: acquire_turn_def acquire_attempt_def update_heartbeat_def heartbeat_content_def
      read_clock_def log_event_def Let_def split: option.splits prod.splits)

text \<open>
  An acquirer alone on the counters (no other process sends a command between two of
  its own) that finds the lock counter taken and reads a heartbeat whose time stamp is
  \<open>HEARTBEAT_TIMEOUT_SECS\<close> or more before its clock: whatever the timeout, the call
  ends in its second turn with the lock. The first turn clears the heartbeat counter
  and deletes the lock counter, no sleep and no timeout test come between, and the
  second increment yields 1.
\<close>

theorem stale_lock_reclaimed:
  assumes "\<not> heartbeat_only (lk w)" and "1 \<le> lock_value w"
    and "heartbeat_value w = Some holder"
    and "stale holder \<lfloor>clock (ticks w + 1)\<rfloor>"
  shows "\<exists>w' ext. acquire (Suc (Suc fuel)) clock ident cn ts w = (Some (Inr ()), w')
     \<and> has_lock (lk w') \<and> lock_value w' = 1
     \<and> trace w' = trace w @ [Increment, GetHeartbeat, ClearHeartbeat, DeleteLock, Increment] @ ext
     \<and> (ext = [] \<and> heartbeat_value w' = None
        \<or> (\<exists>c. ext = [SetHeartbeat c] \<and> heartbeat_value w' = Some c))"
proof -
  define w0 where "w0 = w\<lparr>ticks := ticks w + 1\<rparr>"
  have a: "acquire (Suc (Suc fuel)) clock ident cn ts w
      = acquire_loop (Suc (Suc fuel)) clock ident cn ts (clock (ticks w)) w0"
    using assms(1) by (simp add: acquire_def read_clock_def w0_def)
  have "1 \<le> lock_value w0" "heartbeat_value w0 = Some holder"
    "stale holder \<lfloor>clock (ticks w0)\<rfloor>"
    using assms by (simp_all add: w0_def)
  from turn_stale[where clock=clock, OF this, of ident cn ts "clock (ticks w)"] obtain w1 where
    t1: "acquire_turn clock ident cn ts (clock (ticks w)) w0 = (Again, w1)"
      "lock_value w1 = 0" "heartbeat_value w1 = None"
      "trace w1 = trace w0 @ [Increment, GetHeartbeat, ClearHeartbeat, DeleteLock]"
    by blast
  from turn_free[OF t1(2), of clock ident cn ts "clock (ticks w)"] obtain w2 ext where
    t2: "acquire_turn clock ident cn ts (clock (ticks w)) w1 = (Acquired, w2)"
      "has_lock (lk w2)" "lock_value w2 = 1" "trace w2 = trace w1 @ [Increment] @ ext"
      "ext = [] \<and> heartbeat_value w2 = heartbeat_value w1
        \<or> (\<exists>c. ext = [SetHeartbeat c] \<and> heartbeat_value w2 = Some c)"
    by blast
  have "acquire (Suc (Suc fuel)) clock ident cn ts w = (Some (Inr ()), w2)"
    using a t1(1) t2(1) by simp
  moreover have "trace w2 = trace w @ [Increment, GetHeartbeat, ClearHeartbeat, DeleteLock, Increment] @ ext"
    using t1(4) t2(4) by (simp add: w0_def)
  ultimately show ?thesis using t2(2,3,5) t1(3) by auto
qed

theorem stale_lock_reclaimed_witness:
  "fst (acquire 2 (\<lambda>k. 2000) \<lparr>hostname = ''hostB'', pid = ''77'', argv = ''git pull''\<rparr>
          ''git_fusion_view_v_lock'' (Some 10)
          \<lparr>lk = counter_lock_init False, lock_value = 1,
           heartbeat_value = Some (''hostA'' @ [CHR 0x09] @ ''4242'' @ [CHR 0x09] @ ''1000'' @ [CHR 0x09] @ ''git push''),
           ticks = 0, trace = []\<rparr>) = Some (Inr ())"
  using stale_lock_reclaimed[of "\<lparr>lk = counter_lock_init False, lock_value = 1,
           heartbeat_value = Some (''hostA'' @ [CHR 0x09] @ ''4242'' @ [CHR 0x09] @ ''1000'' @ [CHR 0x09] @ ''git push''),
           ticks = 0, trace = []\<rparr>"
      "''hostA'' @ [CHR 0x09] @ ''4242'' @ [CHR 0x09] @ ''1000'' @ [CHR 0x09] @ ''git push''"
      "\<lambda>k. 2000" 0 "\<lparr>hostname = ''hostB'', pid = ''77'', argv = ''git pull''\<rparr>"
      "''git_fusion_view_v_lock''" "Some 10"]
  by (auto simp add: counter_lock_init_def stale_def py_int_def py_strip_def is_space_def is_digit_def
      digits_val_def digit_val_def numeral_3_eq_3 numeral_2_eq_2 HEARTBEAT_TIMEOUT_SECS_def)

section \<open>Counter lock: two waiters and one abandoned lock\<close>

lemma turn_is_observe_then_steal:
  "observe_holder clock w = (False, Some h, Inr False, w4) \<Longrightarrow>
   acquire_turn clock ident cn ts start w = (Again, steal_lock clock ident w4)"
  by (auto simp: observe_holder_def acquire_turn_def steal_lock_def Let_def
      split: prod.splits option.splits)

lemma observe_stale:
  assumes "1 \<le> lock_value w" and "heartbeat_value w = Some holder"
    and "stale holder \<lfloor>clock (ticks w)\<rfloor>"
  shows "\<exists>w1. observe_holder clock w = (False, Some holder, Inr False, w1)
      \<and> lock_value w1 = lock_value w + 1 \<and> heartbeat_value w1 = Some holder"
  using assms stale_nontrivial[OF assms(3)] dead_of_stale[OF assms(3)]
  by (simp add: observe_holder_def acquire_attempt_def get_heartbeat_def read_clock_def
      log_event_def Let_def)

text \<open>
  C5, evaluated on the code. The reclaiming acquirer does not become the sole holder.
  The lock counter is taken and the heartbeat is stale. Waiter B increments the counter
  and reads the stale heartbeat; waiter A then reclaims the lock and acquires it, as
  \<open>stale_lock_reclaimed\<close> says; B, acting on the verdict it took before, releases
  (deleting the counter that now stands for A's lock, and A's heartbeat) and its next
  increment yields 1. Both \<open>CounterLock\<close> objects then report \<open>has()\<close> true.
\<close>

theorem two_waiters_both_hold:
  assumes "\<not> heartbeat_only (lk wA)"
    and "1 \<le> lock_value wB" and "heartbeat_value wB = Some holder"
    and "stale holder \<lfloor>clock (ticks wB)\<rfloor>"
    and "stale holder \<lfloor>clock (ticks wA + 1)\<rfloor>"
  shows "has_lock (lk (fst (two_waiters clock identA identB cn ts wA wB)))
       \<and> has_lock (lk (snd (two_waiters clock identA identB cn ts wA wB)))
       \<and> lock_value (snd (two_waiters clock identA identB cn ts wA wB)) = 1"
proof -
  from observe_stale[where clock=clock and w=wB, OF assms(2,3,4)] obtain wB1 where
    b1: "observe_holder clock wB = (False, Some holder, Inr False, wB1)"
      "lock_value wB1 = lock_value wB + 1" "heartbeat_value wB1 = Some holder"
    by blast
  define wA0 where "wA0 = on_counters_of wB1 wA"
  have a0: "\<not> heartbeat_only (lk wA0)" "1 \<le> lock_value wA0"
    "heartbeat_value wA0 = Some holder" "stale holder \<lfloor>clock (ticks wA0 + 1)\<rfloor>"
    using assms(1,5) b1(2,3) by (simp_all add: wA0_def on_counters_of_def)
  from stale_lock_reclaimed[where clock=clock and w=wA0 and fuel=0 and ident=identA and cn=cn and ts=ts, OF a0] obtain wA1 where
    a1: "acquire 2 clock identA cn ts wA0 = (Some (Inr ()), wA1)" "has_lock (lk wA1)"
    by (auto simp: numeral_2_eq_2)
  define wB1' where "wB1' = (on_counters_of wA1 wB1)\<lparr>lk := (lk (on_counters_of wA1 wB1))\<lparr>has_lock := True\<rparr>\<rparr>"
  have "has_lock (lk wB1')" by (simp add: wB1'_def)
  from release_held[OF this, of clock identB] obtain wB2 where
    b2: "release clock identB wB1' = (True, wB2)" "lock_value wB2 = 0"
    by blast
  have s: "steal_lock clock identB (on_counters_of wA1 wB1) = wB2"
    using b2(1) by (simp add: steal_lock_def wB1'_def)
  from turn_free[OF b2(2), of clock identB cn ts "clock 0"] obtain wB3 where
    b3: "acquire_turn clock identB cn ts (clock 0) wB2 = (Acquired, wB3)"
      "has_lock (lk wB3)" "lock_value wB3 = 1"
    by blast
  have "two_waiters clock identA identB cn ts wA wB = (on_counters_of wB3 wA1, wB3)"
    using b1(1) a1(1) s b3(1) by (simp add: two_waiters_def wA0_def)
  then show ?thesis using a1(2) b3(2,3) by (simp add: on_counters_of_def)
qed

theorem two_waiters_both_hold_witness:
  "has_lock (lk (fst (two_waiters (\<lambda>k. 2000)
       \<lparr>hostname = ''hostA'', pid = ''11'', argv = ''git pull''\<rparr>
       \<lparr>hostname = ''hostB'', pid = ''22'', argv = ''git push''\<rparr>
       ''git_fusion_view_v_lock'' (Some 10)
       \<lparr>lk = counter_lock_init False, lock_value = 1,
        heartbeat_value = Some (''hostC'' @ [CHR 0x09] @ ''4242'' @ [CHR 0x09] @ ''1000''
                                  @ [CHR 0x09] @ ''git push''),
        ticks = 0, trace = []\<rparr>
       \<lparr>lk = counter_lock_init False, lock_value = 1,
        heartbeat_value = Some (''hostC'' @ [CHR 0x09] @ ''4242'' @ [CHR 0x09] @ ''1000''
                                  @ [CHR 0x09] @ ''git push''),
        ticks = 1, trace = []\<rparr>)))
   \<and> has_lock (lk (snd (two_waiters (\<lambda>k. 2000)
       \<lparr>hostname = ''hostA'', pid = ''11'', argv = ''git pull''\<rparr>
       \<lparr>hostname = ''hostB'', pid = ''22'', argv = ''git push''\<rparr>
       ''git_fusion_view_v_lock'' (Some 10)
       \<lparr>lk = counter_lock_init False, lock_value = 1,
        heartbeat_value = Some (''hostC'' @ [CHR 0x09] @ ''4242'' @ [CHR 0x09] @ ''1000''
                                  @ [CHR 0x09] @ ''git push''),
        ticks = 0, trace = []\<rparr>
       \<lparr>lk = counter_lock_init False, lock_value = 1,
        heartbeat_value = Some (''hostC'' @ [CHR 0x09] @ ''4242'' @ [CHR 0x09] @ ''1000''
                                  @ [CHR 0x09] @ ''git push''),
        ticks = 1, trace = []\<rparr>)))"
proof -
  have st: "stale (''hostC'' @ [CHR 0x09] @ ''4242'' @ [CHR 0x09] @ ''1000''
                                  @ [CHR 0x09] @ ''git push'') 2000"
    by (simp add: stale_def py_int_def py_strip_def is_space_def is_digit_def digits_val_def
        digit_val_def numeral_3_eq_3 HEARTBEAT_TIMEOUT_SECS_def)
  show ?thesis
    using two_waiters_both_hold
      [of "\<lparr>lk = counter_lock_init False, lock_value = 1,
        heartbeat_value = Some (''hostC'' @ [CHR 0x09] @ ''4242'' @ [CHR 0x09] @ ''1000''
                                  @ [CHR 0x09] @ ''git push''),
        ticks = 0, trace = []\<rparr>"
          "\<lparr>lk = counter_lock_init False, lock_value = 1,
        heartbeat_value = Some (''hostC'' @ [CHR 0x09] @ ''4242'' @ [CHR 0x09] @ ''1000''
                                  @ [CHR 0x09] @ ''git push''),
        ticks = 1, trace = []\<rparr>"
          "''hostC'' @ [CHR 0x09] @ ''4242'' @ [CHR 0x09] @ ''1000'' @ [CHR 0x09] @ ''git push''"
          "\<lambda>k. 2000" "\<lparr>hostname = ''hostA'', pid = ''11'', argv = ''git pull''\<rparr>"
          "\<lparr>hostname = ''hostB'', pid = ''22'', argv = ''git push''\<rparr>"
          "''git_fusion_view_v_lock''" "Some 10"]
      st
    by (simp add: counter_lock_init_def)
qed

section \<open>Revision range after an existing commit\<close>

text \<open>
  C8. For a start that is not a changelist specifier (it does not begin with \<open>@\<close>),
  the range is computed from the commit: when the commit-to-changelist lookup answers
  a changelist whose number is \<open>n\<close>, the range begins at \<open>@(n+1)\<close>, ends at the
  given stop, is not a new repository, has no graft changelist and records the commit;
  when the lookup answers no changelist, the computation fails with the
  invalid-start-point error.
\<close>

theorem from_start_stop_after_commit:
  "(\<not> prefix ''@'' start_at
      \<and> get_change_for_commit p4_objects (expand_sha1 start_at) view_name = Inr (Some cl)
      \<and> py_int cl = Some n \<longrightarrow>
     from_start_stop p4_objects expand_sha1 p4_changes2 client_view_path view_name start_at stop_at
       = Inr \<lparr>begin_rev_spec = Some (''@'' @ py_str (1 + n)), end_rev_spec = Some stop_at,
              new_repo = False, graft_change_num = None, last_commit = expand_sha1 start_at\<rparr>)
   \<and> (\<not> prefix ''@'' start_at
      \<and> get_change_for_commit p4_objects (expand_sha1 start_at) view_name = Inr None \<longrightarrow>
     from_start_stop p4_objects expand_sha1 p4_changes2 client_view_path view_name start_at stop_at
       = Inl (RuntimeError (invalid_start_message start_at)))"
proof -
  have "cl \<noteq> []" if "py_int cl = Some n"
    using that by (auto simp: py_int_def py_strip_def)
  then show ?thesis
    by (auto simp: from_start_stop_def existing_repo_after_commit_def rev_range_init_def Let_def)
qed

theorem from_start_stop_after_commit_witness:
  "from_start_stop
     (\<lambda>s. Inr [\<lparr>ot_sha1 = s, ot_type = ''commit'',
                  ot_p4changelists = Some [(''12'', ''myview'')]\<rparr>])
     (\<lambda>s. Some s) (\<lambda>q. Inr []) ''//git-fusion-myview/...'' ''myview''
     ''95a034e3ca8039972b15510465f96f62e629e701'' ''#head''
   = Inr \<lparr>begin_rev_spec = Some ''@13'', end_rev_spec = Some ''#head'',
          new_repo = False, graft_change_num = None,
          last_commit = Some ''95a034e3ca8039972b15510465f96f62e629e701''\<rparr>
   \<and> from_start_stop (\<lambda>s. Inr []) (\<lambda>s. Some s) (\<lambda>q. Inr [])
       ''//git-fusion-myview/...'' ''myview''
       ''95a034e3ca8039972b15510465f96f62e629e701'' ''#head''
   = Inl (RuntimeError (invalid_start_message ''95a034e3ca8039972b15510465f96f62e629e701''))"
proof -
  have a: "py_str 13 = ''13''"
    by (simp add: py_str_def str_nat.simps digit_char_def)
  have b: "py_int ''12'' = Some 12"
    by (simp add: py_int_def py_strip_def is_space_def is_digit_def digits_val_def digit_val_def)
  show ?thesis
    using from_start_stop_after_commit
        [of "''95a034e3ca8039972b15510465f96f62e629e701''"
            "\<lambda>s. Inr [\<lparr>ot_sha1 = s, ot_type = ''commit'',
                  ot_p4changelists = Some [(''12'', ''myview'')]\<rparr>]"
            "\<lambda>s. Some s" "''myview''" "''12''" 12 "\<lambda>q. Inr []" "''//git-fusion-myview/...''"
            "''#head''"]
      from_start_stop_after_commit
        [of "''95a034e3ca8039972b15510465f96f62e629e701''" "\<lambda>s. Inr []"
            "\<lambda>s. Some s" "''myview''" "''12''" 12 "\<lambda>q. Inr []" "''//git-fusion-myview/...''"
            "''#head''"]
    by (simp add: a b get_change_for_commit_def sha1_to_object_type_def applies_to_view_def
        view_name_to_changelist_def)
qed

section \<open>Script builder: file-change lines\<close>





section \<open>Script builder: reading back the audit trailer\<close>

lemma prefix_not_across:
  "prefix p (x @ c # y) \<Longrightarrow> c \<notin> set p \<Longrightarrow> prefix p x"
proof -
  assume a: "prefix p (x @ c # y)" and b: "c \<notin> set p"
  from a have "prefix p x \<or> (\<exists>us. p = x @ us \<and> prefix us (c # y))"
    by (simp add: prefix_append)
  then show "prefix p x"
  proof
    assume "prefix p x" then show ?thesis .
  next
    assume "\<exists>us. p = x @ us \<and> prefix us (c # y)"
    then obtain us where us: "p = x @ us" "prefix us (c # y)" by blast
    show ?thesis
    proof (cases us)
      case Nil
      then show ?thesis using us by simp
    next
      case (Cons u us')
      then have "u = c" using us(2) by simp
      then show ?thesis using b us(1) Cons by simp
    qed
  qed
qed

lemma str_find_None_Cons:
  "str_find sub (x # a) = None \<Longrightarrow> \<not> prefix sub (x # a) \<and> str_find sub a = None"
  by (auto split: if_splits)

lemma str_find_skip:
  "str_find sub a = None \<Longrightarrow> c \<notin> set sub \<Longrightarrow>
   str_find sub (a @ c # b) = map_option (\<lambda>k. length a + 1 + k) (str_find sub b)"
proof (induction a)
  case Nil
  then have "sub \<noteq> []" by (auto split: if_splits)
  then have "\<not> prefix sub (c # b)" using Nil(2) by (cases sub) auto
  then show ?case by (simp add: option.map_comp comp_def)
next
  case (Cons x a)
  from str_find_None_Cons[OF Cons.prems(1)]
  have n: "\<not> prefix sub (x # a)" "str_find sub a = None" by auto
  have "\<not> prefix sub ((x # a) @ c # b)"
    using prefix_not_across[of sub "x # a" c b] n(1) Cons.prems(2) by blast
  then show ?case using Cons.IH[OF n(2) Cons.prems(2)]
    by (simp add: option.map_comp comp_def)
qed

lemma str_find_here: "sub \<noteq> [] \<Longrightarrow> str_find sub (sub @ r) = Some 0"
  by (cases sub) auto

lemma str_find_absent: "p \<noteq> [] \<Longrightarrow> hd p \<notin> set a \<Longrightarrow> str_find p a = None"
proof (induction a)
  case Nil
  then show ?case by simp
next
  case (Cons x a)
  then have "\<not> prefix p (x # a)" by (cases p) auto
  then show ?case using Cons by simp
qed

lemma rsearch_skip:
  assumes "str_find p a = None" and "c \<notin> set p"
  shows "rsearch (Lit (p @ [c']) # its) (a @ c # b) = rsearch (Lit (p @ [c']) # its) b"
  using assms(1)
proof (induction a)
  case Nil
  then have "p \<noteq> []" by (auto split: if_splits)
  then have "\<not> prefix (p @ [c']) (c # b)" using assms(2) by (cases p) auto
  then show ?case by simp
next
  case (Cons x a)
  from str_find_None_Cons[OF Cons.prems(1)]
  have n: "\<not> prefix p (x # a)" "str_find p a = None" by auto
  have "\<not> prefix p ((x # a) @ c # b)"
    using prefix_not_across[of p "x # a" c b] n(1) assms(2) by blast
  then have "\<not> prefix (p @ [c']) (x # a @ c # b)"
    using append_prefixD by fastforce
  then show ?case using Cons.IH[OF n(2)] by simp
qed

lemma rsearch_match: "rmatch its s = Some ps \<Longrightarrow> rsearch its s = Some ps"
  by (cases s) auto

lemma first_len_giveback:
  "(\<forall>b1 b2. b = b1 @ b2 \<and> b1 \<noteq> [] \<longrightarrow> k (b2 @ r) = None) \<Longrightarrow>
   first_len k (a @ b @ r) (length a + length b) = first_len k (a @ b @ r) (length a)"
proof (induction b arbitrary: r rule: rev_induct)
  case Nil
  then show ?case by simp
next
  case (snoc x b)
  have "b @ [x] = (b @ [x]) @ [] \<and> b @ [x] \<noteq> []" by simp
  then have "k ([] @ r) = None" using snoc.prems by blast
  then have "k r = None" by simp
  then have "first_len k (a @ (b @ [x]) @ r) (length a + length (b @ [x]))
      = first_len k (a @ b @ (x # r)) (length a + length b)"
    by simp
  moreover have "\<forall>b1 b2. b = b1 @ b2 \<and> b1 \<noteq> [] \<longrightarrow> k (b2 @ x # r) = None"
  proof (intro allI impI)
    fix b1 b2 assume "b = b1 @ b2 \<and> b1 \<noteq> []"
    then have "b @ [x] = b1 @ (b2 @ [x]) \<and> b1 \<noteq> []" by simp
    then have "k ((b2 @ [x]) @ r) = None" using snoc.prems by blast
    then show "k (b2 @ x # r) = None" by simp
  qed
  ultimately show ?case using snoc.IH[of "x # r"] by simp
qed

lemma first_len_greedy:
  assumes "a \<noteq> []" and "k (b @ r) = Some ps"
    and "\<forall>b1 b2. b = b1 @ b2 \<and> b1 \<noteq> [] \<longrightarrow> k (b2 @ r) = None"
  shows "first_len k (a @ b @ r) (length a + length b) = Some (a # ps)"
proof -
  obtain n where n: "length a = Suc n" using assms(1) by (cases a) auto
  have d: "drop (Suc n) (a @ b @ r) = b @ r" "take (Suc n) (a @ b @ r) = a"
    using n by simp_all
  have "first_len k (a @ b @ r) (Suc n) = Some (a # ps)"
    using assms(2) by (simp add: d del: drop_append take_append)
  then have "first_len k (a @ b @ r) (length a) = Some (a # ps)"
    using n by simp
  then show ?thesis using first_len_giveback[OF assms(3)] by simp
qed

lemma takeWhile_line:
  "\<forall>c\<in>set x. P c \<Longrightarrow> r = [] \<or> \<not> P (hd r) \<Longrightarrow> takeWhile P (x @ r) = x"
  by (cases r) auto

lemma list_all_notin: "list_all P xs \<Longrightarrow> \<not> P c \<Longrightarrow> c \<notin> set xs"
  by (auto simp: list_all_iff)

lemma not_digit:
  "\<not> is_digit (CHR 0x0A)" "\<not> is_digit (CHR ''<'')" "\<not> is_digit (CHR ''>'')"
  "\<not> is_digit (CHR '' '')" "\<not> is_digit (CHR ''C'')"
  by (simp_all add: is_digit_def)

lemma not_tz_char:
  "\<not> tz_char (CHR 0x0A)" "\<not> tz_char (CHR ''<'')" "\<not> tz_char (CHR ''>'')"
  "\<not> tz_char (CHR '' '')" "\<not> tz_char (CHR ''C'')"
  by (simp_all add: tz_char_def)

lemma digit_chars:
  "list_all is_digit D \<Longrightarrow>
   CHR 0x0A \<notin> set D \<and> CHR ''<'' \<notin> set D \<and> CHR ''>'' \<notin> set D \<and> CHR '' '' \<notin> set D
   \<and> CHR ''C'' \<notin> set D"
  using list_all_notin[of is_digit D] not_digit by blast

lemma tz_chars:
  "list_all tz_char T \<Longrightarrow>
   CHR 0x0A \<notin> set T \<and> CHR ''<'' \<notin> set T \<and> CHR ''>'' \<notin> set T \<and> CHR '' '' \<notin> set T
   \<and> CHR ''C'' \<notin> set T"
  using list_all_notin[of tz_char T] not_tz_char by blast

lemma proper_suffix_tl: "b = b1 @ b2 \<Longrightarrow> b1 \<noteq> [] \<Longrightarrow> set b2 \<subseteq> set (tl b)"
  by (cases b1) auto

lemma proper_suffix_tl_tl:
  "b = b1 @ y1 # y2 # z \<Longrightarrow> b1 \<noteq> [] \<Longrightarrow> y2 \<in> set (tl (tl b))"
  by (cases b1; cases "tl b1") auto

lemma match_tz:
  assumes "T \<noteq> []" and "CHR 0x0A \<notin> set T" and "r = [] \<or> hd r = CHR 0x0A"
  shows "rmatch [Dots] (T @ r) = Some [T]"
proof -
  have tw: "takeWhile (\<lambda>c. c \<noteq> CHR 0x0A) (T @ r) = T"
    using assms(2,3) by (intro takeWhile_line) auto
  have "first_len (rmatch []) (T @ [] @ r) (length T + length ([]::string)) = Some (T # [])"
    by (rule first_len_greedy) (use assms(1) in simp_all)
  then show ?thesis by (simp add: tw)
qed

lemma match_date:
  assumes "D \<noteq> []" and "list_all is_digit D"
    and "T \<noteq> []" and "CHR 0x0A \<notin> set T" and "r = [] \<or> hd r = CHR 0x0A"
  shows "rmatch [Digits, Lit '' '', Dots] (D @ '' '' @ T @ r) = Some [D, '' '', T]"
proof -
  have tw: "takeWhile is_digit (D @ ('' '' @ T @ r)) = D"
    using assms(2) not_digit(4) by (intro takeWhile_line) (auto simp: list_all_iff)
  have k: "rmatch [Lit '' '', Dots] ([] @ ('' '' @ T @ r)) = Some ['' '', T]"
    using match_tz[OF assms(3,4,5)] by simp
  have "first_len (rmatch [Lit '' '', Dots]) (D @ [] @ ('' '' @ T @ r))
          (length D + length ([]::string)) = Some (D # ['' '', T])"
    by (rule first_len_greedy) (use assms(1) k in simp_all)
  then show ?thesis using tw by simp
qed

lemma match_email:
  assumes "e \<noteq> []" and "CHR 0x0A \<notin> set e"
    and "D \<noteq> []" and "list_all is_digit D"
    and "T \<noteq> []" and "list_all tz_char T" and "r = [] \<or> hd r = CHR 0x0A"
  shows "rmatch [Dots, Lit ''>'', Lit '' '', Digits, Lit '' '', Dots]
           (e @ ''>'' @ '' '' @ D @ '' '' @ T @ r)
         = Some [e, ''>'', '' '', D, '' '', T]"
proof -
  define b where "b = ''>'' @ '' '' @ D @ '' '' @ T"
  define k where "k = rmatch [Lit ''>'', Lit '' '', Digits, Lit '' '', Dots]"
  note dc = digit_chars[OF assms(4)] and tc = tz_chars[OF assms(6)]
  have s: "e @ ''>'' @ '' '' @ D @ '' '' @ T @ r = e @ b @ r" by (simp add: b_def)
  have tw: "takeWhile (\<lambda>c. c \<noteq> CHR 0x0A) ((e @ b) @ r) = e @ b"
    using assms(2,7) dc tc by (intro takeWhile_line) (auto simp: b_def)
  have kb: "k (b @ r) = Some [''>'', '' '', D, '' '', T]"
    using match_date[OF assms(3,4,5) _ assms(7)] tc by (simp add: k_def b_def)
  have fail: "\<forall>b1 b2. b = b1 @ b2 \<and> b1 \<noteq> [] \<longrightarrow> k (b2 @ r) = None"
  proof (intro allI impI)
    fix b1 b2 assume a: "b = b1 @ b2 \<and> b1 \<noteq> []"
    then have sub: "set b2 \<subseteq> set (tl b)" using proper_suffix_tl by blast
    have "CHR ''>'' \<notin> set (tl b)" using dc tc by (simp add: b_def)
    then have "CHR ''>'' \<notin> set b2" using sub by blast
    then have "\<not> prefix ''>'' (b2 @ r)" using assms(7) by (cases b2; cases r) auto
    then show "k (b2 @ r) = None" by (simp add: k_def)
  qed
  have "first_len k (e @ b @ r) (length e + length b) = Some (e # [''>'', '' '', D, '' '', T])"
    using first_len_greedy[OF assms(1) kb fail] .
  then show ?thesis unfolding s using tw by (simp add: k_def)
qed

lemma match_user:
  assumes "U \<noteq> []" and "CHR 0x0A \<notin> set U"
    and "e \<noteq> []" and "CHR 0x0A \<notin> set e" and "CHR ''<'' \<notin> set e"
    and "D \<noteq> []" and "list_all is_digit D"
    and "T \<noteq> []" and "list_all tz_char T" and "r = [] \<or> hd r = CHR 0x0A"
  shows "rmatch [Dots, Lit '' '', Lit ''<'', Dots, Lit ''>'', Lit '' '', Digits, Lit '' '', Dots]
           (U @ '' '' @ ''<'' @ e @ ''>'' @ '' '' @ D @ '' '' @ T @ r)
         = Some [U, '' '', ''<'', e, ''>'', '' '', D, '' '', T]"
proof -
  define b where "b = '' '' @ ''<'' @ e @ ''>'' @ '' '' @ D @ '' '' @ T"
  define k where
    "k = rmatch [Lit '' '', Lit ''<'', Dots, Lit ''>'', Lit '' '', Digits, Lit '' '', Dots]"
  note dc = digit_chars[OF assms(7)] and tc = tz_chars[OF assms(9)]
  have s: "U @ '' '' @ ''<'' @ e @ ''>'' @ '' '' @ D @ '' '' @ T @ r = U @ b @ r"
    by (simp add: b_def)
  have tw: "takeWhile (\<lambda>c. c \<noteq> CHR 0x0A) ((U @ b) @ r) = U @ b"
    using assms(2,4,10) dc tc by (intro takeWhile_line) (auto simp: b_def)
  have kb: "k (b @ r) = Some ['' '', ''<'', e, ''>'', '' '', D, '' '', T]"
    using match_email[OF assms(3,4,6,7,8,9,10)] by (simp add: k_def b_def)
  have fail: "\<forall>b1 b2. b = b1 @ b2 \<and> b1 \<noteq> [] \<longrightarrow> k (b2 @ r) = None"
  proof (intro allI impI)
    fix b1 b2 assume a: "b = b1 @ b2 \<and> b1 \<noteq> []"
    have lt: "CHR ''<'' \<notin> set (tl (tl b))" using assms(5) dc tc by (simp add: b_def)
    have "\<not> prefix '' <'' (b2 @ r)"
    proof (cases b2)
      case Nil
      then show ?thesis using assms(10) by (cases r) auto
    next
      case (Cons y1 b2')
      show ?thesis
      proof (cases b2')
        case Nil
        then show ?thesis using Cons assms(10) by (cases r) auto
      next
        case (Cons y2 z)
        then have "y2 \<in> set (tl (tl b))"
          using a \<open>b2 = y1 # b2'\<close> proper_suffix_tl_tl[of b b1 y1 y2 z] by simp
        then have "y2 \<noteq> CHR ''<''" using lt by blast
        then show ?thesis using Cons \<open>b2 = y1 # b2'\<close> by simp
      qed
    qed
    then show "k (b2 @ r) = None" by (cases "b2 @ r") (auto simp: k_def)
  qed
  have "first_len k (U @ b @ r) (length U + length b)
      = Some (U # ['' '', ''<'', e, ''>'', '' '', D, '' '', T])"
    using first_len_greedy[OF assms(1) kb fail] .
  then show ?thesis unfolding s using tw by (simp add: k_def)
qed

lemma email_shape:
  assumes "wf_ident d"
  shows "\<exists>e. id_email d = ''<'' @ e @ ''>'' \<and> e \<noteq> [] \<and> CHR 0x0A \<notin> set e \<and> CHR ''<'' \<notin> set e"
proof -
  define E where "E = id_email d"
  have E: "3 \<le> length E" "hd E = CHR ''<''" "last E = CHR ''>''" "CHR 0x0A \<notin> set E"
    "CHR ''<'' \<notin> set (tl E)"
    using assms by (simp_all add: wf_ident_def E_def)
  then obtain t where t: "E = CHR ''<'' # t" "2 \<le> length t" by (cases E) auto
  then have tn: "t \<noteq> []" by auto
  then have tl: "last t = CHR ''>''" "t \<noteq> []" using E(3) t(1) by simp_all
  define e where "e = butlast t"
  have te: "t = e @ ''>''" using tl by (simp add: e_def flip: tl(1))
  have "e \<noteq> []" using t(2) te by (cases e) auto
  moreover have "CHR 0x0A \<notin> set e" "CHR ''<'' \<notin> set e" using E(4,5) t(1) te by auto
  ultimately show ?thesis using t(1) te by (auto simp: E_def)
qed

lemma ident_match:
  assumes "wf_ident d" and "r = [] \<or> hd r = CHR 0x0A"
  shows "\<exists>ps. rmatch (key_regex cap)
            (cap @ '': '' @ id_user d @ '' '' @ id_email d @ '' '' @ id_date d @ '' ''
              @ id_timezone d @ r) = Some ps
          \<and> key_groups ps = (id_user d, id_email d, id_date d, id_timezone d)"
proof -
  from email_shape[OF assms(1)] obtain e where
    e: "id_email d = ''<'' @ e @ ''>''" "e \<noteq> []" "CHR 0x0A \<notin> set e" "CHR ''<'' \<notin> set e"
    by blast
  have w: "id_user d \<noteq> []" "CHR 0x0A \<notin> set (id_user d)" "id_date d \<noteq> []"
    "list_all is_digit (id_date d)" "id_timezone d \<noteq> []" "list_all tz_char (id_timezone d)"
    using assms(1) by (simp_all add: wf_ident_def)
  have m: "rmatch [Dots, Lit '' '', Lit ''<'', Dots, Lit ''>'', Lit '' '', Digits, Lit '' '', Dots]
           (id_user d @ '' '' @ ''<'' @ e @ ''>'' @ '' '' @ id_date d @ '' '' @ id_timezone d @ r)
         = Some [id_user d, '' '', ''<'', e, ''>'', '' '', id_date d, '' '', id_timezone d]"
    by (rule match_user[OF w(1,2) e(2,3,4) w(3,4,5,6) assms(2)])
  have "rmatch (key_regex cap)
            (cap @ '': '' @ id_user d @ '' '' @ id_email d @ '' '' @ id_date d @ '' ''
              @ id_timezone d @ r)
      = Some [cap @ '': '', id_user d, '' '', ''<'', e, ''>'', '' '', id_date d, '' '',
              id_timezone d]"
    using m by (simp add: key_regex_def e(1))
  moreover have "key_groups [cap @ '': '', id_user d, '' '', ''<'', e, ''>'', '' '', id_date d,
      '' '', id_timezone d] = (id_user d, id_email d, id_date d, id_timezone d)"
    by (simp add: key_groups_def e(1))
  ultimately show ?thesis by blast
qed

lemma trailer_tail_hd: "trailer_tail c pusher author = [] \<or> hd (trailer_tail c pusher author) = CHR 0x0A"
  by (simp add: trailer_tail_def)

lemma description_shape:
  "change_description c pusher author =
     c_data c @ CHR 0x0A # (''Imported from Git'' @ CHR 0x0A # CHR '' '' #
       (''Author: '' @ id_user (c_author c) @ '' '' @ id_email (c_author c) @ '' ''
          @ id_date (c_author c) @ '' '' @ id_timezone (c_author c)
          @ (CHR 0x0A # CHR '' '' #
              (''Committer: '' @ id_user (c_committer c) @ '' '' @ id_email (c_committer c)
                 @ '' '' @ id_date (c_committer c) @ '' '' @ id_timezone (c_committer c)
                 @ trailer_tail c pusher author))))"
  by (simp add: change_description_def join_lines_def ident_line_def P4GF_IMPORT_HEADER_def
      trailer_tail_def)

lemma header_index:
  assumes "str_find P4GF_IMPORT_HEADER dat = None"
  shows "str_find P4GF_IMPORT_HEADER (dat @ CHR 0x0A # (''Imported from Git'' @ rest))
           = Some (Suc (length dat))"
proof -
  have "CHR 0x0A \<notin> set P4GF_IMPORT_HEADER" by (simp add: P4GF_IMPORT_HEADER_def)
  from str_find_skip[OF assms this, of "''Imported from Git'' @ rest"]
  have "str_find P4GF_IMPORT_HEADER (dat @ CHR 0x0A # (''Imported from Git'' @ rest))
      = map_option (\<lambda>k. length dat + 1 + k)
          (str_find P4GF_IMPORT_HEADER (''Imported from Git'' @ rest))" .
  moreover have "str_find P4GF_IMPORT_HEADER (''Imported from Git'' @ rest) = Some 0"
    using str_find_here[of P4GF_IMPORT_HEADER rest] by (simp add: P4GF_IMPORT_HEADER_def)
  ultimately show ?thesis by simp
qed

lemma author_search:
  assumes "wf_ident a" and "r = [] \<or> hd r = CHR 0x0A"
  shows "\<exists>ps. rsearch (key_regex ''Author'')
            (''Imported from Git'' @ CHR 0x0A # CHR '' '' #
               (''Author: '' @ id_user a @ '' '' @ id_email a @ '' '' @ id_date a @ '' ''
                 @ id_timezone a @ r)) = Some ps
          \<and> key_groups ps = (id_user a, id_email a, id_date a, id_timezone a)"
proof -
  define its where
    "its = [Dots, Lit '' '', Lit ''<'', Dots, Lit ''>'', Lit '' '', Digits, Lit '' '', Dots]"
  define line where "line = ''Author: '' @ id_user a @ '' '' @ id_email a @ '' '' @ id_date a
     @ '' '' @ id_timezone a @ r"
  have kr: "key_regex ''Author'' = Lit (''Author:'' @ [CHR '' '']) # its"
    by (simp add: key_regex_def its_def)
  have s1: "rsearch (Lit (''Author:'' @ [CHR '' '']) # its)
        (''Imported from Git'' @ CHR 0x0A # (CHR '' '' # line))
      = rsearch (Lit (''Author:'' @ [CHR '' '']) # its) (CHR '' '' # line)"
    by (rule rsearch_skip) simp_all
  have s2: "rsearch (Lit (''Author:'' @ [CHR '' '']) # its) ([] @ CHR '' '' # line)
      = rsearch (Lit (''Author:'' @ [CHR '' '']) # its) line"
    by (rule rsearch_skip) simp_all
  from ident_match[OF assms, of "''Author''"] obtain ps where
    ps: "rmatch (key_regex ''Author'') line = Some ps"
      "key_groups ps = (id_user a, id_email a, id_date a, id_timezone a)"
    by (auto simp: line_def)
  have "rsearch (key_regex ''Author'') line = Some ps" using ps(1) by (rule rsearch_match)
  then have "rsearch (key_regex ''Author'')
      (''Imported from Git'' @ CHR 0x0A # CHR '' '' # line) = Some ps"
    using s1 s2 by (simp add: kr)
  then show ?thesis using ps(2) by (auto simp: line_def)
qed

lemma committer_search:
  assumes "wf_ident a" and "no_committer_label a" and "wf_ident cm"
    and "r = [] \<or> hd r = CHR 0x0A"
  shows "\<exists>ps. rsearch (key_regex ''Committer'')
            (''Imported from Git'' @ CHR 0x0A # CHR '' '' #
               (''Author: '' @ id_user a @ '' '' @ id_email a @ '' '' @ id_date a @ '' ''
                 @ id_timezone a
                 @ (CHR 0x0A # CHR '' '' #
                     (''Committer: '' @ id_user cm @ '' '' @ id_email cm @ '' '' @ id_date cm
                        @ '' '' @ id_timezone cm @ r)))) = Some ps
          \<and> key_groups ps = (id_user cm, id_email cm, id_date cm, id_timezone cm)"
proof -
  define its where
    "its = [Dots, Lit '' '', Lit ''<'', Dots, Lit ''>'', Lit '' '', Digits, Lit '' '', Dots]"
  define pat where "pat = Lit (''Committer:'' @ [CHR '' '']) # its"
  define X6 where "X6 = ''Committer: '' @ id_user cm @ '' '' @ id_email cm @ '' '' @ id_date cm
     @ '' '' @ id_timezone cm @ r"
  define Y7 where "Y7 = CHR '' '' # X6"
  define Y6 where "Y6 = id_timezone a @ CHR 0x0A # Y7"
  define Y5 where "Y5 = id_date a @ CHR '' '' # Y6"
  define Y4 where "Y4 = id_email a @ CHR '' '' # Y5"
  define Y3 where "Y3 = id_user a @ CHR '' '' # Y4"
  define Y2 where "Y2 = ''Author:'' @ CHR '' '' # Y3"
  define Y1 where "Y1 = CHR '' '' # Y2"
  have kr: "key_regex ''Committer'' = pat"
    by (simp add: key_regex_def its_def pat_def)
  have sp: "CHR '' '' \<notin> set ''Committer:''" and nl: "CHR 0x0A \<notin> set ''Committer:''"
    by simp_all
  have wa: "list_all is_digit (id_date a)" "list_all tz_char (id_timezone a)"
    using assms(1) by (simp_all add: wf_ident_def)
  have na: "str_find ''Committer:'' (id_user a) = None" "str_find ''Committer:'' (id_email a) = None"
    using assms(2) by (simp_all add: no_committer_label_def)
  have nd: "str_find ''Committer:'' (id_date a) = None"
    using digit_chars[OF wa(1)] by (intro str_find_absent) simp_all
  have nt: "str_find ''Committer:'' (id_timezone a) = None"
    using tz_chars[OF wa(2)] by (intro str_find_absent) simp_all
  have t1: "rsearch pat (''Imported from Git'' @ CHR 0x0A # Y1) = rsearch pat Y1"
    unfolding pat_def by (rule rsearch_skip) simp_all
  have t2: "rsearch pat ([] @ CHR '' '' # Y2) = rsearch pat Y2"
    unfolding pat_def by (rule rsearch_skip) simp_all
  have t3: "rsearch pat (''Author:'' @ CHR '' '' # Y3) = rsearch pat Y3"
    unfolding pat_def by (rule rsearch_skip) simp_all
  have t4: "rsearch pat (id_user a @ CHR '' '' # Y4) = rsearch pat Y4"
    unfolding pat_def by (rule rsearch_skip[OF na(1) sp])
  have t5: "rsearch pat (id_email a @ CHR '' '' # Y5) = rsearch pat Y5"
    unfolding pat_def by (rule rsearch_skip[OF na(2) sp])
  have t6: "rsearch pat (id_date a @ CHR '' '' # Y6) = rsearch pat Y6"
    unfolding pat_def by (rule rsearch_skip[OF nd sp])
  have t7: "rsearch pat (id_timezone a @ CHR 0x0A # Y7) = rsearch pat Y7"
    unfolding pat_def by (rule rsearch_skip[OF nt nl])
  have t8: "rsearch pat ([] @ CHR '' '' # X6) = rsearch pat X6"
    unfolding pat_def by (rule rsearch_skip) simp_all
  from ident_match[OF assms(3,4), of "''Committer''"] obtain ps where
    ps: "rmatch (key_regex ''Committer'') X6 = Some ps"
      "key_groups ps = (id_user cm, id_email cm, id_date cm, id_timezone cm)"
    by (auto simp: X6_def)
  have "rsearch pat X6 = Some ps" using ps(1) unfolding kr by (rule rsearch_match)
  then have "rsearch pat (''Imported from Git'' @ CHR 0x0A # Y1) = Some ps"
    using t1 t2 t3 t4 t5 t6 t7 t8
    by (simp add: Y1_def Y2_def Y3_def Y4_def Y5_def Y6_def Y7_def)
  moreover have "''Imported from Git'' @ CHR 0x0A # Y1
      = ''Imported from Git'' @ CHR 0x0A # CHR '' '' #
               (''Author: '' @ id_user a @ '' '' @ id_email a @ '' '' @ id_date a @ '' ''
                 @ id_timezone a
                 @ (CHR 0x0A # CHR '' '' #
                     (''Committer: '' @ id_user cm @ '' '' @ id_email cm @ '' '' @ id_date cm
                        @ '' '' @ id_timezone cm @ r)))"
    by (simp add: Y1_def Y2_def Y3_def Y4_def Y5_def Y6_def Y7_def X6_def)
  ultimately show ?thesis using ps(2) unfolding kr by auto
qed

text \<open>
  Where the round trip works. Take a commit whose author and committer are well-formed
  identities (\<open>wf_ident\<close>), whose message does not contain the import header, and
  whose author name and e-mail address do not contain the text \<open>Committer:\<close>. The
  description that \<open>change_description\<close> builds from it, for any pusher and author
  account, is read back by \<open>add_commit\<close> into a commit record that has the original
  author line and committer line (name, e-mail address, time stamp and time zone) and
  the original message as its data, the trailer stripped.
\<close>

theorem description_round_trip:
  assumes "wf_ident (c_author c)" and "wf_ident (c_committer c)"
    and "no_committer_label (c_author c)"
    and "str_find P4GF_IMPORT_HEADER (c_data c) = None"
    and "cl_description cl = change_description c pusher author"
  shows "fst (add_commit self cl last0)
     = commit_head self cl @ emit_ident ''author'' (c_author c)
       @ emit_ident ''committer'' (c_committer c) @ add_data (c_data c) @ parent_ref last0
       @ fst (add_files (fi_project_root_path_length self) (cl_files cl))"
proof -
  define tt where "tt = trailer_tail c pusher author"
  define S where "S = ''Imported from Git'' @ CHR 0x0A # CHR '' '' #
       (''Author: '' @ id_user (c_author c) @ '' '' @ id_email (c_author c) @ '' ''
          @ id_date (c_author c) @ '' '' @ id_timezone (c_author c)
          @ (CHR 0x0A # CHR '' '' #
              (''Committer: '' @ id_user (c_committer c) @ '' '' @ id_email (c_committer c)
                 @ '' '' @ id_date (c_committer c) @ '' '' @ id_timezone (c_committer c)
                 @ tt)))"
  have tth: "tt = [] \<or> hd tt = CHR 0x0A" unfolding tt_def by (rule trailer_tail_hd)
  have desc: "cl_description cl = c_data c @ CHR 0x0A # S"
    unfolding assms(5) S_def tt_def by (rule description_shape)
  have idx: "str_find P4GF_IMPORT_HEADER (cl_description cl) = Some (Suc (length (c_data c)))"
    unfolding desc S_def by (rule header_index[OF assms(4)])
  have dr: "drop (Suc (length (c_data c))) (cl_description cl) = S"
    and tk: "take (length (c_data c)) (cl_description cl) = c_data c"
    unfolding desc by simp_all
  have r2: "(CHR 0x0A # CHR '' '' #
              (''Committer: '' @ id_user (c_committer c) @ '' '' @ id_email (c_committer c)
                 @ '' '' @ id_date (c_committer c) @ '' '' @ id_timezone (c_committer c)
                 @ tt)) = [] \<or> hd (CHR 0x0A # CHR '' '' #
              (''Committer: '' @ id_user (c_committer c) @ '' '' @ id_email (c_committer c)
                 @ '' '' @ id_date (c_committer c) @ '' '' @ id_timezone (c_committer c)
                 @ tt)) = CHR 0x0A"
    by simp
  from author_search[OF assms(1) r2] obtain pa where
    pa: "rsearch (key_regex ''Author'') S = Some pa"
      "key_groups pa = (id_user (c_author c), id_email (c_author c), id_date (c_author c),
         id_timezone (c_author c))"
    unfolding S_def by blast
  from committer_search[OF assms(1,3,2) tth] obtain pc where
    pc: "rsearch (key_regex ''Committer'') S = Some pc"
      "key_groups pc = (id_user (c_committer c), id_email (c_committer c),
         id_date (c_committer c), id_timezone (c_committer c))"
    unfolding S_def by blast
  have tr: "trailer_lines [(''author'', ''Author''), (''committer'', ''Committer'')] S
      = (emit_ident ''author'' (c_author c) @ emit_ident ''committer'' (c_committer c), True)"
    by (simp add: pa pc emit_ident_def)
  show ?thesis
    by (simp add: add_commit_def idx dr tr tk split_beta del: trailer_lines.simps)
qed


theorem description_round_trip_witness:
  "fst (add_commit
     \<lparr>fi_timezone = ''UTC'', fi_project_root_path_length = 5,
      fi_branchname = ''git_fusion_temp_branch'',
      fi_full_name_for_user = (\<lambda>u. ''Full Name''), fi_email_for_user = (\<lambda>u. ''<x@y>'')\<rparr>
     \<lparr>cl_change = ''7'',
      cl_description = change_description
        \<lparr>c_mark = ''2'', c_sha1 = ''abc'', c_data = ''msg'' @ [CHR 0x0A],
         c_author = \<lparr>id_user = ''Al B'', id_email = ''<a@b>'', id_date = ''123'',
                     id_timezone = ''+0100''\<rparr>,
         c_committer = \<lparr>id_user = ''Cy'', id_email = ''<c@d>'', id_date = ''456'',
                        id_timezone = ''-0800''\<rparr>,
         c_merge = None, c_files = []\<rparr> ''pusher'' ''author'',
      cl_user = ''u'', cl_time = ''99'', cl_files = []\<rparr> (Some ''6''))
   = ''commit refs/heads/git_fusion_temp_branch'' @ [CHR 0x0A] @ ''mark : 7'' @ [CHR 0x0A]
     @ ''author Al B <a@b> 123 +0100'' @ [CHR 0x0A]
     @ ''committer Cy <c@d> 456 -0800'' @ [CHR 0x0A]
     @ ''data 4'' @ [CHR 0x0A] @ ''msg'' @ [CHR 0x0A] @ ''from :6'' @ [CHR 0x0A]"
  using description_round_trip
    [of "\<lparr>c_mark = ''2'', c_sha1 = ''abc'', c_data = ''msg'' @ [CHR 0x0A],
         c_author = \<lparr>id_user = ''Al B'', id_email = ''<a@b>'', id_date = ''123'',
                     id_timezone = ''+0100''\<rparr>,
         c_committer = \<lparr>id_user = ''Cy'', id_email = ''<c@d>'', id_date = ''456'',
                        id_timezone = ''-0800''\<rparr>,
         c_merge = None, c_files = []\<rparr>"
        "\<lparr>cl_change = ''7'',
      cl_description = change_description
        \<lparr>c_mark = ''2'', c_sha1 = ''abc'', c_data = ''msg'' @ [CHR 0x0A],
         c_author = \<lparr>id_user = ''Al B'', id_email = ''<a@b>'', id_date = ''123'',
                     id_timezone = ''+0100''\<rparr>,
         c_committer = \<lparr>id_user = ''Cy'', id_email = ''<c@d>'', id_date = ''456'',
                        id_timezone = ''-0800''\<rparr>,
         c_merge = None, c_files = []\<rparr> ''pusher'' ''author'',
      cl_user = ''u'', cl_time = ''99'', cl_files = []\<rparr>"
        "''pusher''" "''author''"
        "\<lparr>fi_timezone = ''UTC'', fi_project_root_path_length = 5,
      fi_branchname = ''git_fusion_temp_branch'',
      fi_full_name_for_user = (\<lambda>u. ''Full Name''), fi_email_for_user = (\<lambda>u. ''<x@y>'')\<rparr>"
        "Some ''6''"]
  by (simp add: wf_ident_def no_committer_label_def is_digit_def tz_char_def
      P4GF_IMPORT_HEADER_def commit_head_def emit_ident_def add_data_def parent_ref_def
      py_str_def str_nat.simps digit_char_def)

text \<open>
  C9, evaluated on the code. An author with the empty e-mail address \<open><>\<close>, as the
  fast-export parser yields it, has no header text in any field, and
  \<open>change_description\<close> writes the author line for it like for any other. Reading
  the description back, \<open>(<.+>)\<close> needs a character between the brackets, so the
  author line is not found: the commit record has the committer line only, and the
  original author is lost.
\<close>

theorem empty_email_author_lost:
  "fst (add_commit
     \<lparr>fi_timezone = ''UTC'', fi_project_root_path_length = 5,
      fi_branchname = ''git_fusion_temp_branch'',
      fi_full_name_for_user = (\<lambda>u. ''Full Name''), fi_email_for_user = (\<lambda>u. ''<x@y>'')\<rparr>
     \<lparr>cl_change = ''7'',
      cl_description = change_description
        \<lparr>c_mark = ''2'', c_sha1 = ''abc'', c_data = ''msg'' @ [CHR 0x0A],
         c_author = \<lparr>id_user = ''Al B'', id_email = ''<>'', id_date = ''123'',
                     id_timezone = ''+0100''\<rparr>,
         c_committer = \<lparr>id_user = ''Cy'', id_email = ''<c@d>'', id_date = ''456'',
                        id_timezone = ''-0800''\<rparr>,
         c_merge = None, c_files = []\<rparr> ''pusher'' ''author'',
      cl_user = ''u'', cl_time = ''99'', cl_files = []\<rparr> (Some ''6''))
   = ''commit refs/heads/git_fusion_temp_branch'' @ [CHR 0x0A] @ ''mark : 7'' @ [CHR 0x0A]
     @ ''committer Cy <c@d> 456 -0800'' @ [CHR 0x0A]
     @ ''data 4'' @ [CHR 0x0A] @ ''msg'' @ [CHR 0x0A] @ ''from :6'' @ [CHR 0x0A]"
  by code_simp

end
